theory Spec2Isabelle
  imports Main
begin

section \<open>Strings of the page-embedded detector (content.js)\<close>

text \<open>
  A JavaScript string is modelled as a \<^typ>\<open>string\<close>: a list of 8-bit code units, so the
  model covers the strings whose code units are below 256, and \<open>length\<close> is the
  \<open>.length\<close> of the source. All markers the detector looks for are ASCII, and on code
  units below 256 neither \<open>toLowerCase\<close> nor the canonicalisation of the \<open>i\<close> flag maps a
  non-ASCII unit to an ASCII one; \<open>toLowerCase\<close> is therefore modelled on the ASCII letters.
\<close>

definition lowerChar :: "char \<Rightarrow> char" where
  "lowerChar c =
     (case map_of (zip ''ABCDEFGHIJKLMNOPQRSTUVWXYZ'' ''abcdefghijklmnopqrstuvwxyz'') c of
        Some l \<Rightarrow> l
      | None \<Rightarrow> c)"

definition toLowerCase :: "string \<Rightarrow> string" where
  "toLowerCase s = map lowerChar s"

text \<open>\<open>s.startsWith(p)\<close>.\<close>

fun startsWith :: "string \<Rightarrow> string \<Rightarrow> bool" where
  "startsWith s [] = True"
| "startsWith [] (p # ps) = False"
| "startsWith (c # cs) (p # ps) = (c = p \<and> startsWith cs ps)"

text \<open>\<open>s.includes(p)\<close>: \<open>p\<close> occurs in \<open>s\<close> at some position.\<close>

fun includesStr :: "string \<Rightarrow> string \<Rightarrow> bool" where
  "includesStr [] p = (p = [])"
| "includesStr (c # cs) p = (startsWith (c # cs) p \<or> includesStr cs p)"

text \<open>The character classes \<open>\s\<close>, \<open>\d\<close> and \<open>.\<close> of the regular expressions, on code units
  below 256: white space is TAB, LF, VT, FF, CR, SPACE and NBSP; the dot excludes LF and CR.\<close>

definition isSpace :: "char \<Rightarrow> bool" where
  "isSpace c = (c \<in> set [CHR 0x09, CHR 0x0A, CHR 0x0B, CHR 0x0C, CHR 0x0D, CHR 0x20, CHR 0xA0])"

definition isDigit :: "char \<Rightarrow> bool" where
  "isDigit c = (c \<in> set ''0123456789'')"

definition isDot :: "char \<Rightarrow> bool" where
  "isDot c = (c \<noteq> CHR 0x0A \<and> c \<noteq> CHR 0x0D)"

section \<open>Regular expressions\<close>

text \<open>
  The regular expressions of content.js are sequences of the following atoms. A matcher
  with the backtracking order of the source's engine (greedy repetition tries the longest
  run first, lazy repetition the shortest, alternatives left to right) returns the text
  consumed by each atom, from which the whole match \<open>match[0]\<close> and the capture group
  \<open>match[1]\<close> are read.
\<close>

datatype atom =
    Lit string                  \<comment> \<open>literal characters\<close>
  | Opt char                    \<comment> \<open>\<open>c?\<close>\<close>
  | Star "char \<Rightarrow> bool"         \<comment> \<open>greedy \<open>[class]*\<close>\<close>
  | Plus "char \<Rightarrow> bool"         \<comment> \<open>greedy \<open>[class]+\<close>\<close>
  | LazyPlus "char \<Rightarrow> bool"     \<comment> \<open>lazy \<open>[class]+?\<close>\<close>
  | Alt "string list"           \<comment> \<open>\<open>(?:a|b)\<close> of literals\<close>
  | Eos                         \<comment> \<open>\<open>$\<close> without the \<open>m\<close> flag: end of input\<close>

record regex =
  atoms :: "atom list"
  ignoreCase :: bool                  \<comment> \<open>the \<open>i\<close> flag\<close>
  group1 :: "(nat \<times> nat) option"      \<comment> \<open>capture group 1: index of its first atom, number of atoms\<close>

definition sameChar :: "bool \<Rightarrow> char \<Rightarrow> char \<Rightarrow> bool" where
  "sameChar ci a b = (if ci then lowerChar a = lowerChar b else a = b)"

text \<open>\<open>consumed seg r\<close> records that the atom just matched consumed \<open>seg\<close>.\<close>

definition consumed :: "string \<Rightarrow> (string list \<times> string) option \<Rightarrow> (string list \<times> string) option" where
  "consumed seg r = (case r of None \<Rightarrow> None | Some (segs, rest) \<Rightarrow> Some (seg # segs, rest))"

text \<open>\<open>prepend c r\<close> puts the character \<open>c\<close> in front of the text of the first atom of \<open>r\<close>.\<close>

definition prepend :: "char \<Rightarrow> (string list \<times> string) option \<Rightarrow> (string list \<times> string) option" where
  "prepend c r = (case r of Some (seg # segs, rest) \<Rightarrow> Some ((c # seg) # segs, rest) | _ \<Rightarrow> None)"

function matchHere :: "bool \<Rightarrow> atom list \<Rightarrow> string \<Rightarrow> (string list \<times> string) option" where
  "matchHere ci [] s = Some ([], s)"
| "matchHere ci (Lit [] # ps) s = consumed [] (matchHere ci ps s)"
| "matchHere ci (Lit (l # ls) # ps) [] = None"
| "matchHere ci (Lit (l # ls) # ps) (c # cs) =
     (if sameChar ci c l then prepend c (matchHere ci (Lit ls # ps) cs) else None)"
| "matchHere ci (Opt l # ps) [] = consumed [] (matchHere ci ps [])"
| "matchHere ci (Opt l # ps) (c # cs) =
     (case (if sameChar ci c l then consumed [c] (matchHere ci ps cs) else None) of
        Some r \<Rightarrow> Some r
      | None \<Rightarrow> consumed [] (matchHere ci ps (c # cs)))"
| "matchHere ci (Star k # ps) [] = consumed [] (matchHere ci ps [])"
| "matchHere ci (Star k # ps) (c # cs) =
     (case (if k c then prepend c (matchHere ci (Star k # ps) cs) else None) of
        Some r \<Rightarrow> Some r
      | None \<Rightarrow> consumed [] (matchHere ci ps (c # cs)))"
| "matchHere ci (Plus k # ps) [] = None"
| "matchHere ci (Plus k # ps) (c # cs) =
     (if k c then prepend c (matchHere ci (Star k # ps) cs) else None)"
| "matchHere ci (LazyPlus k # ps) [] = None"
| "matchHere ci (LazyPlus k # ps) (c # cs) =
     (if k c then
        (case consumed [c] (matchHere ci ps cs) of
           Some r \<Rightarrow> Some r
         | None \<Rightarrow> prepend c (matchHere ci (LazyPlus k # ps) cs))
      else None)"
| "matchHere ci (Alt [] # ps) s = None"
| "matchHere ci (Alt (l # ls) # ps) s =
     (case matchHere ci (Lit l # ps) s of
        Some r \<Rightarrow> Some r
      | None \<Rightarrow> matchHere ci (Alt ls # ps) s)"
| "matchHere ci (Eos # ps) [] = consumed [] (matchHere ci ps [])"
| "matchHere ci (Eos # ps) (c # cs) = None"
  by pat_completeness auto

fun atomWeight :: "atom \<Rightarrow> nat" where
  "atomWeight (Lit l) = 1"
| "atomWeight (Alt ls) = 2 + length ls"
| "atomWeight a = 1"

termination matchHere
  by (relation "measures [\<lambda>(ci, ps, s). length s, \<lambda>(ci, ps, s). sum_list (map atomWeight ps)]")
     auto


text \<open>
  \<open>pattern.exec(text)\<close> and \<open>text.match(pattern)\<close> of a pattern without the \<open>g\<close> flag, and
  \<open>pattern.test(text)\<close>: the match at the leftmost position where the pattern matches.
\<close>

fun search :: "bool \<Rightarrow> atom list \<Rightarrow> string \<Rightarrow> string list option" where
  "search ci ps [] = map_option fst (matchHere ci ps [])"
| "search ci ps (c # cs) =
     (case matchHere ci ps (c # cs) of
        Some (segs, rest) \<Rightarrow> Some segs
      | None \<Rightarrow> search ci ps cs)"

definition test :: "regex \<Rightarrow> string \<Rightarrow> bool" where
  "test r s = (search (ignoreCase r) (atoms r) s \<noteq> None)"

text \<open>
  The loop \<open>while ((match = pattern.exec(text)) !== null)\<close> over a pattern with the \<open>g\<close>
  flag: each search starts where the previous match ended. \<open>skip\<close> counts the characters
  of the current match still to be passed. Every pattern the source runs in this loop
  starts with a literal, so no match is empty and none starts at the end of the text.
\<close>

fun execAll :: "bool \<Rightarrow> atom list \<Rightarrow> nat \<Rightarrow> string \<Rightarrow> string list list" where
  "execAll ci ps skip [] = []"
| "execAll ci ps skip (c # cs) =
     (if 0 < skip then execAll ci ps (skip - 1) cs
      else (case matchHere ci ps (c # cs) of
              None \<Rightarrow> execAll ci ps 0 cs
            | Some (segs, rest) \<Rightarrow> segs # execAll ci ps (length (concat segs) - 1) cs))"

text \<open>\<open>match[0]\<close> and \<open>match[1]\<close> (\<open>None\<close> is \<open>undefined\<close>: the pattern has no group).\<close>

definition match0 :: "string list \<Rightarrow> string" where
  "match0 segs = concat segs"

definition match1 :: "regex \<Rightarrow> string list \<Rightarrow> string option" where
  "match1 r segs = (case group1 r of None \<Rightarrow> None | Some (i, n) \<Rightarrow> Some (concat (take n (drop i segs))))"

section \<open>Values and exceptions\<close>

text \<open>
  The values a caller can hand to \<open>isStreamingUrl\<close> (the wrapped request primitives pass
  their first argument on unchecked). A thrown exception is the \<open>Inl\<close> of a sum.
\<close>

datatype jsval = Undefined | Null | Boolean bool | Number int | Str string | Object

datatype exn = TypeError string | SyntaxError string | Error string

fun message :: "exn \<Rightarrow> string" where
  "message (TypeError m) = m"
| "message (SyntaxError m) = m"
| "message (Error m) = m"

definition bnd :: "exn + 'a \<Rightarrow> ('a \<Rightarrow> exn + 'b) \<Rightarrow> exn + 'b" where
  "bnd m f = (case m of Inl e \<Rightarrow> Inl e | Inr x \<Rightarrow> f x)"

fun truthy :: "jsval \<Rightarrow> bool" where
  "truthy Undefined = False"
| "truthy Null = False"
| "truthy (Boolean b) = b"
| "truthy (Number n) = (n \<noteq> 0)"
| "truthy (Str s) = (s \<noteq> [])"
| "truthy Object = True"

fun typeof :: "jsval \<Rightarrow> string" where
  "typeof Undefined = ''undefined''"
| "typeof Null = ''object''"
| "typeof (Boolean b) = ''boolean''"
| "typeof (Number n) = ''number''"
| "typeof (Str s) = ''string''"
| "typeof Object = ''object''"

fun decimal :: "nat \<Rightarrow> string" where
  "decimal n =
     (if n < 10 then [''0123456789'' ! n] else decimal (n div 10) @ [''0123456789'' ! (n mod 10)])"

declare decimal.simps [simp del]

text \<open>The string conversion \<open>RegExp.prototype.test\<close> applies to its argument.\<close>

fun toString :: "jsval \<Rightarrow> string" where
  "toString Undefined = ''undefined''"
| "toString Null = ''null''"
| "toString (Boolean b) = (if b then ''true'' else ''false'')"
| "toString (Number n) = (if n < 0 then CHR ''-'' # decimal (nat (- n)) else decimal (nat n))"
| "toString (Str s) = s"
| "toString Object = ''[object Object]''"

text \<open>\<open>url.includes(p)\<close>: a method of strings; on any other value of this model the call throws.\<close>

fun js_includes :: "jsval \<Rightarrow> string \<Rightarrow> exn + bool" where
  "js_includes (Str s) p = Inr (includesStr s p)"
| "js_includes v p = Inl (TypeError ''url.includes is not a function'')"

section \<open>URL classifier\<close>

definition streamingPatterns :: "regex list" where
  "streamingPatterns =
    [\<lparr>atoms = [Lit ''/hls/''], ignoreCase = True, group1 = None\<rparr>,
     \<lparr>atoms = [Lit ''/dash/''], ignoreCase = True, group1 = None\<rparr>,
     \<lparr>atoms = [Lit ''/stream/''], ignoreCase = True, group1 = None\<rparr>,
     \<lparr>atoms = [Lit ''/manifest/''], ignoreCase = True, group1 = None\<rparr>,
     \<lparr>atoms = [Lit ''playlist.m3u8''], ignoreCase = True, group1 = None\<rparr>,
     \<lparr>atoms = [Lit ''master.m3u8''], ignoreCase = True, group1 = None\<rparr>,
     \<lparr>atoms = [Lit ''index.m3u8''], ignoreCase = True, group1 = None\<rparr>,
     \<lparr>atoms = [Lit ''.ts'', Eos], ignoreCase = True, group1 = None\<rparr>,
     \<lparr>atoms = [Lit ''segment-'', Plus isDigit], ignoreCase = True, group1 = None\<rparr>]"

text \<open>content.js, \<open>isStreamingUrl\<close> (lines 66-93).\<close>

definition isStreamingUrl :: "jsval \<Rightarrow> exn + bool" where
  "isStreamingUrl url =
     (if \<not> truthy url \<or> typeof url \<noteq> ''string'' then Inr False
      else
        bnd (js_includes url ''.m3u8'') (\<lambda>a.
        bnd (if a then Inr True else js_includes url ''m3u8'') (\<lambda>hls.
        if hls then Inr True
        else
          bnd (js_includes url ''.mpd'') (\<lambda>b.
          bnd (if b then Inr True else js_includes url ''mpd'') (\<lambda>dash.
          if dash then Inr True
          else Inr (list_ex (\<lambda>pattern. test pattern (toString url)) streamingPatterns))))))"

text \<open>content.js, \<open>getStreamingFormat\<close> (lines 110-121); its callers pass strings.\<close>

definition getStreamingFormat :: "string \<Rightarrow> string" where
  "getStreamingFormat url =
     (if includesStr url ''.m3u8'' \<or> includesStr url ''m3u8'' then ''HLS''
      else if includesStr url ''.mpd'' \<or> includesStr url ''mpd'' then ''DASH''
      else if includesStr url ''.ts'' then ''TS''
      else ''Stream'')"

text \<open>content.js, \<open>getVideoFormat\<close> (lines 472-491).\<close>

definition getVideoFormat :: "string \<Rightarrow> string" where
  "getVideoFormat url =
     (if url = [] then ''Unknown''
      else let urlLower = toLowerCase url in
        if includesStr urlLower ''.mp4'' then ''MP4''
        else if includesStr urlLower ''.webm'' then ''WebM''
        else if includesStr urlLower ''.ogg'' then ''OGG''
        else if includesStr urlLower ''.avi'' then ''AVI''
        else if includesStr urlLower ''.mov'' then ''MOV''
        else if includesStr urlLower ''.wmv'' then ''WMV''
        else if includesStr urlLower ''.flv'' then ''FLV''
        else if includesStr urlLower ''.mkv'' then ''MKV''
        else if includesStr urlLower ''.m3u8'' then ''HLS''
        else if includesStr urlLower ''.mpd'' then ''DASH''
        else if includesStr urlLower ''.ts'' then ''TS''
        else if startsWith urlLower ''blob:'' then ''Blob''
        else ''Video'')"

text \<open>content.js, \<open>detectPlatform\<close> (lines 388-407), on the hostname of the page.\<close>

definition detectPlatform :: "string \<Rightarrow> string" where
  "detectPlatform host_name =
     (let hostname = toLowerCase host_name in
      if includesStr hostname ''tiktok.com'' then ''tiktok''
      else if includesStr hostname ''facebook.com'' \<or> includesStr hostname ''fb.com'' then ''facebook''
      else if includesStr hostname ''youtube.com'' \<or> includesStr hostname ''youtu.be'' then ''youtube''
      else if includesStr hostname ''instagram.com'' then ''instagram''
      else if includesStr hostname ''twitter.com'' \<or> includesStr hostname ''x.com'' then ''twitter''
      else if includesStr hostname ''twitch.tv'' then ''twitch''
      else ''generic'')"


text \<open>
  \<open>new URL(url)\<close> belongs to the host: it either throws or yields an object of which the
  detector reads the \<open>protocol\<close>.
\<close>

record url_object =
  protocol :: string
  pathname :: string

section \<open>The page as the detector sees it\<close>

text \<open>
  A \<open>source\<close> element and a media (or script) element, each with the properties the
  detector reads: \<open>.src\<close> (the empty string when the attribute is absent), \<open>.type\<close>,
  \<open>.textContent\<close>, and the results of the two queries the detector runs on an element,
  \<open>querySelector('source')\<close> and \<open>querySelectorAll('source[src]')\<close>.
\<close>

record source_element =
  s_src :: string
  s_type :: string

record element =
  el_src :: string
  el_textContent :: string
  el_querySelector_source :: "source_element option"
  el_querySelectorAll_source_src :: "source_element list"

text \<open>
  The embedded player data as \<open>JSON.parse\<close> returns it, with the fields the detector
  reads; a manifest field holds a string when it is present.
\<close>

record streaming_data =
  hlsManifestUrl :: "string option"
  dashManifestUrl :: "string option"

record player_data =
  streamingData :: "streaming_data option"

text \<open>
  The host environment of one scan: the page location and title, the document query
  capability, the \<open>URL\<close> constructor and \<open>JSON.parse\<close>. Each of them may throw.

  The title resolvers of content.js (\<open>extractVideoTitle\<close>, the per-platform
  \<open>extract...Title\<close> and \<open>extractTitleFromStreamingUrl\<close>) read only the document, the
  clock and their arguments and decide nothing but the \<open>title\<close> of a candidate; they are
  part of the environment: \<open>videoTitle\<close> for \<open>extractVideoTitle(video, source)\<close>,
  \<open>platformTitle\<close> for the resolver of the named platform, \<open>streamingUrlTitle\<close> for
  \<open>extractTitleFromStreamingUrl(url, platform)\<close>.
\<close>

record host =
  location_hostname :: string
  document_title :: string
  querySelectorAll :: "string \<Rightarrow> exn + element list"
  new_URL :: "string \<Rightarrow> exn + url_object"
  JSON_parse :: "string \<Rightarrow> exn + player_data"
  videoTitle :: "element \<Rightarrow> source_element option \<Rightarrow> exn + string"
  platformTitle :: "string \<Rightarrow> exn + string"
  streamingUrlTitle :: "string \<Rightarrow> string \<Rightarrow> exn + string"

text \<open>content.js, \<open>isValidVideoUrl\<close> (lines 435-470); the \<open>catch\<close> turns a throwing
  \<open>new URL\<close> into \<open>false\<close>.\<close>

definition videoExtensions :: "string list" where
  "videoExtensions = [''.mp4'', ''.webm'', ''.ogg'', ''.avi'', ''.mov'', ''.wmv'', ''.flv'', ''.mkv'']"

definition videoMimePatterns :: "string list" where
  "videoMimePatterns = [''video/'', ''mp4'', ''webm'', ''ogg'']"

definition isValidVideoUrl :: "host \<Rightarrow> string \<Rightarrow> bool" where
  "isValidVideoUrl h url =
     (case new_URL h url of
        Inl e \<Rightarrow> False
      | Inr urlObj \<Rightarrow>
          if protocol urlObj \<notin> set [''http:'', ''https:''] then False
          else if startsWith url ''blob:'' then False
          else if startsWith url ''data:'' then False
          else
            (let hasVideoExtension = list_ex (\<lambda>ext. includesStr (toLowerCase url) ext) videoExtensions;
                 hasVideoMime = list_ex (\<lambda>pattern. includesStr (toLowerCase url) pattern) videoMimePatterns
             in hasVideoExtension \<or> hasVideoMime))"

section \<open>Candidates\<close>

text \<open>
  A candidate is an object literal; each detection strategy lists the properties it sets,
  and a property it does not list is absent (\<open>None\<close>, read as \<open>undefined\<close>). The two
  floating-point properties \<open>duration\<close> and \<open>currentTime\<close> of the generic harvest are left
  out. In the two message literals of \<open>findBlobVideos\<close> the characters outside ASCII are
  written as their UTF-8 bytes.
\<close>

record candidate =
  src :: "string option"
  url :: "string option"
  vtype :: "string option"               \<comment> \<open>the property \<open>type\<close>\<close>
  element :: "element option"
  sourceElement :: "source_element option"
  title :: "string option"
  mimeType :: "string option"
  platform :: "string option"
  format :: "string option"
  vsize :: "string option"               \<comment> \<open>the property \<open>size\<close>\<close>
  isStreaming :: "bool option"
  downloadable :: "bool option"
  reason :: "string option"
  alternative :: "string option"

definition absent :: candidate where
  "absent = \<lparr>src = None, url = None, vtype = None, element = None, sourceElement = None,
     title = None, mimeType = None, platform = None, format = None, vsize = None,
     isStreaming = None, downloadable = None, reason = None, alternative = None\<rparr>"

definition blobReason :: string where
  "blobReason =
    ''Blob URLs kh'' @ [CHR 0xC3, CHR 0xB4] @ ''ng th'' @ [CHR 0xE1, CHR 0xBB, CHR 0x83] @
    '' t'' @ [CHR 0xE1, CHR 0xBA, CHR 0xA3] @ ''i xu'' @ [CHR 0xE1, CHR 0xBB, CHR 0x91] @
    ''ng tr'' @ [CHR 0xE1, CHR 0xBB, CHR 0xB1] @ ''c ti'' @ [CHR 0xE1, CHR 0xBA, CHR 0xBF] @
    ''p t'' @ [CHR 0xE1, CHR 0xBB, CHR 0xAB] @ '' extension. H'' @ [CHR 0xC3, CHR 0xA3] @
    ''y th'' @ [CHR 0xE1, CHR 0xBB, CHR 0xAD] @ '' right-click v'' @ [CHR 0xC3, CHR 0xA0] @
    '' '' @ [CHR 0x22] @ ''Save video as...'' @ [CHR 0x22] @ '' tr'' @ [CHR 0xC3, CHR 0xAA] @
    ''n video.''"

definition blobAlternative :: string where
  "blobAlternative =
    ''S'' @ [CHR 0xE1, CHR 0xBB, CHR 0xAD] @ '' d'' @ [CHR 0xE1, CHR 0xBB, CHR 0xA5] @
    ''ng browser'' @ [CHR 0x27] @ ''s built-in save feature ho'' @
    [CHR 0xE1, CHR 0xBA, CHR 0xB7] @ ''c screen recording tools''"


section \<open>Loops over collections\<close>

text \<open>\<open>xs.forEach(f)\<close> and \<open>for (const x of xs)\<close> with a body that updates the state \<open>s\<close>
  and may throw: the first exception ends the loop.\<close>

fun forEach :: "('a \<Rightarrow> 's \<Rightarrow> exn + 's) \<Rightarrow> 'a list \<Rightarrow> 's \<Rightarrow> exn + 's" where
  "forEach f [] s = Inr s"
| "forEach f (x # xs) s = (case f x s of Inl e \<Rightarrow> Inl e | Inr s' \<Rightarrow> forEach f xs s')"

text \<open>\<open>[...new Set(urls)]\<close>: the first occurrence of each element, in order.\<close>

fun uniqueInOrder :: "'a list \<Rightarrow> 'a list \<Rightarrow> 'a list" where
  "uniqueInOrder seen [] = []"
| "uniqueInOrder seen (x # xs) =
     (if x \<in> set seen then uniqueInOrder seen xs else x # uniqueInOrder (x # seen) xs)"

text \<open>\<open>s.replace(p, r)\<close> with a string pattern: the first occurrence only.\<close>

fun replaceFirst :: "string \<Rightarrow> string \<Rightarrow> string \<Rightarrow> string" where
  "replaceFirst [] p r = (if p = [] then r else [])"
| "replaceFirst (c # cs) p r =
     (if startsWith (c # cs) p then r @ drop (length p) (c # cs) else c # replaceFirst cs p r)"

section \<open>Manifest scanner\<close>

definition urlChar :: "char \<Rightarrow> bool" where
  "urlChar c = (\<not> isSpace c \<and> c \<noteq> CHR 0x22 \<and> c \<noteq> CHR 0x27)"

definition notDoubleQuote :: "char \<Rightarrow> bool" where
  "notDoubleQuote c = (c \<noteq> CHR 0x22)"

definition notSingleQuote :: "char \<Rightarrow> bool" where
  "notSingleQuote c = (c \<noteq> CHR 0x27)"

text \<open>The six patterns of \<open>extractStreamingUrlsFromText\<close> (lines 212-219), all with the
  flags \<open>gi\<close>; the last two capture the text between the quotes.\<close>

definition textPatterns :: "regex list" where
  "textPatterns =
    [\<lparr>atoms = [Lit ''http'', Opt CHR ''s'', Lit ''://'', Plus urlChar, Lit ''.m3u8'', Star urlChar],
      ignoreCase = True, group1 = None\<rparr>,
     \<lparr>atoms = [Lit ''http'', Opt CHR ''s'', Lit ''://'', Plus urlChar, Lit ''.mpd'', Star urlChar],
      ignoreCase = True, group1 = None\<rparr>,
     \<lparr>atoms = [Lit ''http'', Opt CHR ''s'', Lit ''://'', Plus urlChar, Lit ''/hls/'', Star urlChar],
      ignoreCase = True, group1 = None\<rparr>,
     \<lparr>atoms = [Lit ''http'', Opt CHR ''s'', Lit ''://'', Plus urlChar, Lit ''/dash/'', Star urlChar],
      ignoreCase = True, group1 = None\<rparr>,
     \<lparr>atoms = [Lit [CHR 0x22], Lit ''http'', Opt CHR ''s'', Lit ''://'', Star notDoubleQuote,
               Alt [''m3u8'', ''mpd''], Star notDoubleQuote, Lit [CHR 0x22]],
      ignoreCase = True, group1 = Some (1, 6)\<rparr>,
     \<lparr>atoms = [Lit [CHR 0x27], Lit ''http'', Opt CHR ''s'', Lit ''://'', Star notSingleQuote,
               Alt [''m3u8'', ''mpd''], Star notSingleQuote, Lit [CHR 0x27]],
      ignoreCase = True, group1 = Some (1, 6)\<rparr>]"

text \<open>\<open>match[1] || match[0]\<close>.\<close>

definition matchedUrl :: "regex \<Rightarrow> string list \<Rightarrow> string" where
  "matchedUrl r segs =
     (case match1 r segs of
        Some g \<Rightarrow> if g \<noteq> [] then g else match0 segs
      | None \<Rightarrow> match0 segs)"

text \<open>\<open>url.replace(/['"]/g, '')\<close>.\<close>

definition removeQuotes :: "string \<Rightarrow> string" where
  "removeQuotes u = filter (\<lambda>c. c \<noteq> CHR 0x27 \<and> c \<noteq> CHR 0x22) u"

text \<open>content.js, \<open>extractStreamingUrlsFromText\<close> (lines 208-232).\<close>

definition extractStreamingUrlsFromText :: "string \<Rightarrow> exn + string list" where
  "extractStreamingUrlsFromText text =
     bnd (forEach
            (\<lambda>pattern. forEach
               (\<lambda>segs urls.
                  let u = matchedUrl pattern segs in
                  if u = [] then Inr urls
                  else bnd (isStreamingUrl (Str u))
                         (\<lambda>streaming. if streaming then Inr (urls @ [removeQuotes u]) else Inr urls))
               (execAll (ignoreCase pattern) (atoms pattern) 0 text))
            textPatterns [])
         (\<lambda>urls. Inr (uniqueInOrder [] urls))"

text \<open>The object literal of a streaming candidate (lines 162-170, 185-193, 278-286, 290-298,
  310-318, 332-340).\<close>

definition streamingEntry :: "string \<Rightarrow> string \<Rightarrow> string \<Rightarrow> string \<Rightarrow> candidate" where
  "streamingEntry u p f t =
     absent\<lparr>url := Some u, vtype := Some ''streaming'', platform := Some p, format := Some f,
            vsize := Some ''Unknown'', title := Some t, isStreaming := Some True\<rparr>"

text \<open>\<open>a || b\<close> on strings.\<close>

definition orString :: "string \<Rightarrow> string \<Rightarrow> string" where
  "orString a b = (if a \<noteq> [] then a else b)"

text \<open>The push of lines 161-170 and 184-193, for one URL.\<close>

definition pushStreaming :: "host \<Rightarrow> string \<Rightarrow> string \<Rightarrow> candidate list \<Rightarrow> exn + candidate list" where
  "pushStreaming h pf u vs =
     (let f = getStreamingFormat u in
      bnd (streamingUrlTitle h u pf)
        (\<lambda>t. Inr (vs @ [streamingEntry u pf f (orString t (pf @ '' '' @ f @ '' Stream''))])))"

text \<open>The six per-platform title resolvers and \<open>extractPlatformTitle\<close> (lines 942-959).\<close>

definition extractTikTokTitle :: "host \<Rightarrow> exn + string" where
  "extractTikTokTitle h = platformTitle h ''tiktok''"

definition extractFacebookTitle :: "host \<Rightarrow> exn + string" where
  "extractFacebookTitle h = platformTitle h ''facebook''"

definition extractYouTubeTitle :: "host \<Rightarrow> exn + string" where
  "extractYouTubeTitle h = platformTitle h ''youtube''"

definition extractInstagramTitle :: "host \<Rightarrow> exn + string" where
  "extractInstagramTitle h = platformTitle h ''instagram''"

definition extractTwitterTitle :: "host \<Rightarrow> exn + string" where
  "extractTwitterTitle h = platformTitle h ''twitter''"

definition extractTwitchTitle :: "host \<Rightarrow> exn + string" where
  "extractTwitchTitle h = platformTitle h ''twitch''"

definition extractPlatformTitle :: "host \<Rightarrow> element \<Rightarrow> string \<Rightarrow> exn + string" where
  "extractPlatformTitle h el pf =
     (if pf = ''tiktok'' then extractTikTokTitle h
      else if pf = ''facebook'' then extractFacebookTitle h
      else if pf = ''youtube'' then extractYouTubeTitle h
      else if pf = ''instagram'' then extractInstagramTitle h
      else if pf = ''twitter'' then extractTwitterTitle h
      else if pf = ''twitch'' then extractTwitchTitle h
      else videoTitle h el None)"

text \<open>content.js, \<open>extractYouTubeStreamingData\<close> (lines 275-300).\<close>

definition extractYouTubeStreamingData :: "host \<Rightarrow> streaming_data \<Rightarrow> candidate list \<Rightarrow> candidate list" where
  "extractYouTubeStreamingData h sd vs =
     (let vs1 =
        (case hlsManifestUrl sd of
           Some u \<Rightarrow>
             if u \<noteq> [] then
               vs @ [streamingEntry u ''youtube'' ''HLS''
                       (orString (replaceFirst (document_title h) '' - YouTube'' [])
                          ''YouTube HLS Stream'')]
             else vs
         | None \<Rightarrow> vs)
      in
        (case dashManifestUrl sd of
           Some u \<Rightarrow>
             if u \<noteq> [] then
               vs1 @ [streamingEntry u ''youtube'' ''DASH''
                        (orString (replaceFirst (document_title h) '' - YouTube'' [])
                           ''YouTube DASH Stream'')]
             else vs1
         | None \<Rightarrow> vs1))"

text \<open>The pattern \<open>/ytInitialPlayerResponse\s*=\s*({.+?});/\<close> of line 261.\<close>

definition playerResponsePattern :: regex where
  "playerResponsePattern =
     \<lparr>atoms = [Lit ''ytInitialPlayerResponse'', Star isSpace, Lit ''='', Star isSpace,
               Lit ''{'', LazyPlus isDot, Lit ''}'', Lit '';''],
      ignoreCase = False, group1 = Some (4, 3)\<rparr>"

text \<open>content.js, \<open>findYouTubeStreamingUrls\<close> (lines 255-273): whatever the \<open>try\<close> block
  throws is logged and the script is skipped.\<close>

definition findYouTubeStreamingUrls :: "host \<Rightarrow> candidate list \<Rightarrow> exn + candidate list" where
  "findYouTubeStreamingUrls h vs =
     bnd (querySelectorAll h ''script'')
       (\<lambda>scripts. forEach
          (\<lambda>script vs.
             if el_textContent script \<noteq> [] \<and>
                includesStr (el_textContent script) ''ytInitialPlayerResponse''
             then
               (case
                  (case search (ignoreCase playerResponsePattern) (atoms playerResponsePattern)
                          (el_textContent script) of
                     None \<Rightarrow> Inr vs
                   | Some segs \<Rightarrow>
                       bnd (case match1 playerResponsePattern segs of
                              Some g \<Rightarrow> JSON_parse h g
                            | None \<Rightarrow> Inl (SyntaxError ''undefined is not valid JSON''))
                         (\<lambda>playerData.
                            case streamingData playerData of
                              Some sd \<Rightarrow> Inr (extractYouTubeStreamingData h sd vs)
                            | None \<Rightarrow> Inr vs))
                of Inl e \<Rightarrow> Inr vs
                 | Inr vs' \<Rightarrow> Inr vs')
             else Inr vs)
          scripts vs)"

text \<open>content.js, \<open>findFacebookStreamingUrls\<close> (lines 302-322) and
  \<open>findTikTokStreamingUrls\<close> (lines 324-344).\<close>

definition findFacebookStreamingUrls :: "host \<Rightarrow> candidate list \<Rightarrow> exn + candidate list" where
  "findFacebookStreamingUrls h vs =
     bnd (querySelectorAll h ''script'')
       (\<lambda>scripts. forEach
          (\<lambda>script vs.
             if el_textContent script \<noteq> [] \<and>
                (includesStr (el_textContent script) ''hd_src'' \<or>
                 includesStr (el_textContent script) ''sd_src'')
             then
               bnd (extractStreamingUrlsFromText (el_textContent script))
                 (\<lambda>streamingUrls. forEach
                    (\<lambda>u vs.
                       bnd (extractFacebookTitle h)
                         (\<lambda>t. Inr (vs @ [streamingEntry u ''facebook'' (getStreamingFormat u)
                                            (orString t ''Facebook Stream'')])))
                    streamingUrls vs)
             else Inr vs)
          scripts vs)"

definition findTikTokStreamingUrls :: "host \<Rightarrow> candidate list \<Rightarrow> exn + candidate list" where
  "findTikTokStreamingUrls h vs =
     bnd (querySelectorAll h ''script'')
       (\<lambda>scripts. forEach
          (\<lambda>script vs.
             if el_textContent script \<noteq> [] \<and> includesStr (el_textContent script) ''playAddr''
             then
               bnd (extractStreamingUrlsFromText (el_textContent script))
                 (\<lambda>streamingUrls. forEach
                    (\<lambda>u vs.
                       bnd (extractTikTokTitle h)
                         (\<lambda>t. Inr (vs @ [streamingEntry u ''tiktok'' (getStreamingFormat u)
                                            (orString t ''TikTok Stream'')])))
                    streamingUrls vs)
             else Inr vs)
          scripts vs)"

text \<open>content.js, \<open>scanPageForStreamingUrls\<close> (lines 177-206).\<close>

definition scanPageForStreamingUrls :: "host \<Rightarrow> string \<Rightarrow> candidate list \<Rightarrow> exn + candidate list" where
  "scanPageForStreamingUrls h pf vs =
     bnd (querySelectorAll h ''script'')
       (\<lambda>scripts.
          bnd (forEach
                 (\<lambda>script vs.
                    if el_textContent script \<noteq> [] then
                      bnd (extractStreamingUrlsFromText (el_textContent script))
                        (\<lambda>streamingUrls. forEach (pushStreaming h pf) streamingUrls vs)
                    else Inr vs)
                 scripts vs)
            (\<lambda>vs.
               if pf = ''youtube'' then findYouTubeStreamingUrls h vs
               else if pf = ''facebook'' then findFacebookStreamingUrls h vs
               else if pf = ''tiktok'' then findTikTokStreamingUrls h vs
               else Inr vs))"

text \<open>content.js, \<open>findStreamingVideos\<close> (lines 158-175); \<open>observed\<close> is the set
  \<open>this.streamingUrls\<close> in insertion order.\<close>

definition findStreamingVideos :: "host \<Rightarrow> string list \<Rightarrow> string \<Rightarrow> candidate list \<Rightarrow> exn + candidate list" where
  "findStreamingVideos h observed pf vs =
     bnd (forEach (pushStreaming h pf) observed vs) (scanPageForStreamingUrls h pf)"

section \<open>DOM harvester\<close>

text \<open>content.js, \<open>findDirectVideoElements\<close> (lines 346-362) and \<open>findSourceElements\<close>
  (lines 364-386).\<close>

definition findDirectVideoElements :: "host \<Rightarrow> candidate list \<Rightarrow> exn + candidate list" where
  "findDirectVideoElements h vs =
     bnd (querySelectorAll h ''video[src]'')
       (\<lambda>videoElements. forEach
          (\<lambda>video vs.
             if el_src video \<noteq> [] \<and> isValidVideoUrl h (el_src video) then
               bnd (videoTitle h video None)
                 (\<lambda>t. Inr (vs @ [absent\<lparr>src := Some (el_src video), vtype := Some ''direct'',
                                          element := Some video, title := Some t\<rparr>]))
             else Inr vs)
          videoElements vs)"

definition findSourceElements :: "host \<Rightarrow> candidate list \<Rightarrow> exn + candidate list" where
  "findSourceElements h vs =
     bnd (querySelectorAll h ''video'')
       (\<lambda>videoElements. forEach
          (\<lambda>video. forEach
             (\<lambda>source vs.
                if s_src source \<noteq> [] \<and> isValidVideoUrl h (s_src source) then
                  bnd (videoTitle h video (Some source))
                    (\<lambda>t. Inr (vs @ [absent\<lparr>src := Some (s_src source), vtype := Some ''source'',
                                             element := Some video, sourceElement := Some source,
                                             title := Some t, mimeType := Some (s_type source)\<rparr>]))
                else Inr vs)
             (el_querySelectorAll_source_src video))
          videoElements vs)"

text \<open>content.js, \<open>findBlobVideos\<close> (lines 802-820).\<close>

definition findBlobVideos :: "host \<Rightarrow> string \<Rightarrow> candidate list \<Rightarrow> exn + candidate list" where
  "findBlobVideos h pf vs =
     bnd (querySelectorAll h ''video'')
       (\<lambda>videoElements. forEach
          (\<lambda>video vs.
             if el_src video \<noteq> [] \<and> startsWith (el_src video) ''blob:'' then
               bnd (extractPlatformTitle h video pf)
                 (\<lambda>t. Inr (vs @ [absent\<lparr>url := Some (el_src video), title := Some t,
                                          element := Some video, vtype := Some (pf @ ''_blob''),
                                          format := Some ''blob'', vsize := Some ''Unknown'',
                                          downloadable := Some False, reason := Some blobReason,
                                          alternative := Some blobAlternative\<rparr>]))
             else Inr vs)
          videoElements vs)"

text \<open>\<open>element.src || (element.querySelector('source') && element.querySelector('source').src)\<close>;
  \<open>None\<close> is \<open>null\<close>.\<close>

definition resolveSrc :: "element \<Rightarrow> string option" where
  "resolveSrc el =
     (if el_src el \<noteq> [] then Some (el_src el)
      else (case el_querySelector_source el of None \<Rightarrow> None | Some source \<Rightarrow> Some (s_src source)))"

text \<open>The selector loop shared, with different selectors, title resolver and type tag, by
  the six per-platform harvests (lines 623-800).\<close>

definition harvestSelectors ::
  "host \<Rightarrow> string list \<Rightarrow> exn + string \<Rightarrow> string \<Rightarrow> candidate list \<Rightarrow> exn + candidate list" where
  "harvestSelectors h selectors resolveTitle tag vs =
     forEach
       (\<lambda>selector vs.
          bnd (querySelectorAll h selector)
            (\<lambda>elements. forEach
               (\<lambda>el vs.
                  case resolveSrc el of
                    None \<Rightarrow> Inr vs
                  | Some s \<Rightarrow>
                      if s \<noteq> [] \<and> isValidVideoUrl h s then
                        bnd resolveTitle
                          (\<lambda>t. Inr (vs @ [absent\<lparr>url := Some s, title := Some t, element := Some el,
                                                   vtype := Some tag, format := Some (getVideoFormat s),
                                                   vsize := Some ''Unknown''\<rparr>]))
                      else Inr vs)
               elements vs))
       selectors vs"

definition tiktokSelectors :: "string list" where
  "tiktokSelectors =
    [''video[src]'',
     ''video source[src]'',
     ''[data-e2e='' @ [CHR 0x22] @ ''browse-video'' @ [CHR 0x22] @ ''] video'',
     ''.video-player video'',
     ''.feed-video video'',
     ''div[data-e2e='' @ [CHR 0x22] @ ''feed-item'' @ [CHR 0x22] @ ''] video'']"

definition facebookSelectors :: "string list" where
  "facebookSelectors =
    [''video[src]'',
     ''video source[src]'',
     ''[data-pagelet='' @ [CHR 0x22] @ ''FeedUnit'' @ [CHR 0x22] @ ''] video'',
     ''[data-pagelet='' @ [CHR 0x22] @ ''VideoPlayerRoot'' @ [CHR 0x22] @ ''] video'',
     ''.story-bucket-current video'',
     ''[role='' @ [CHR 0x22] @ ''main'' @ [CHR 0x22] @ ''] video'']"

definition youtubeSelectors :: "string list" where
  "youtubeSelectors =
    [''video[src]'',
     ''video source[src]'',
     ''.html5-video-player video'',
     ''#movie_player video'',
     ''.video-stream'']"

definition instagramSelectors :: "string list" where
  "instagramSelectors =
    [''video[src]'',
     ''video source[src]'',
     ''article video'',
     ''[role='' @ [CHR 0x22] @ ''presentation'' @ [CHR 0x22] @ ''] video'']"

definition twitterSelectors :: "string list" where
  "twitterSelectors =
    [''video[src]'',
     ''video source[src]'',
     ''[data-testid='' @ [CHR 0x22] @ ''videoPlayer'' @ [CHR 0x22] @ ''] video'',
     ''.media-container video'']"

definition twitchSelectors :: "string list" where
  "twitchSelectors =
    [''video[src]'',
     ''video source[src]'',
     ''.video-player video'',
     ''[data-a-target='' @ [CHR 0x22] @ ''player-overlay-click-handler'' @ [CHR 0x22] @ ''] video'']"

definition findTikTokVideos :: "host \<Rightarrow> candidate list \<Rightarrow> exn + candidate list" where
  "findTikTokVideos h vs =
     bnd (harvestSelectors h tiktokSelectors (extractTikTokTitle h) ''tiktok'' vs)
       (findBlobVideos h ''tiktok'')"

definition findFacebookVideos :: "host \<Rightarrow> candidate list \<Rightarrow> exn + candidate list" where
  "findFacebookVideos h vs =
     bnd (harvestSelectors h facebookSelectors (extractFacebookTitle h) ''facebook'' vs)
       (findBlobVideos h ''facebook'')"

definition findYouTubeVideos :: "host \<Rightarrow> candidate list \<Rightarrow> exn + candidate list" where
  "findYouTubeVideos h vs =
     bnd (harvestSelectors h youtubeSelectors (extractYouTubeTitle h) ''youtube'' vs)
       (findBlobVideos h ''youtube'')"

definition findInstagramVideos :: "host \<Rightarrow> candidate list \<Rightarrow> exn + candidate list" where
  "findInstagramVideos h vs =
     bnd (harvestSelectors h instagramSelectors (extractInstagramTitle h) ''instagram'' vs)
       (findBlobVideos h ''instagram'')"

definition findTwitterVideos :: "host \<Rightarrow> candidate list \<Rightarrow> exn + candidate list" where
  "findTwitterVideos h vs =
     bnd (harvestSelectors h twitterSelectors (extractTwitterTitle h) ''twitter'' vs)
       (findBlobVideos h ''twitter'')"

definition findTwitchVideos :: "host \<Rightarrow> candidate list \<Rightarrow> exn + candidate list" where
  "findTwitchVideos h vs =
     bnd (harvestSelectors h twitchSelectors (extractTwitchTitle h) ''twitch'' vs)
       (findBlobVideos h ''twitch'')"

text \<open>content.js, \<open>findPlatformSpecificVideos\<close> (lines 409-433).\<close>

definition findPlatformSpecificVideos :: "host \<Rightarrow> string \<Rightarrow> candidate list \<Rightarrow> exn + candidate list" where
  "findPlatformSpecificVideos h pf vs =
     (if pf = ''tiktok'' then findTikTokVideos h vs
      else if pf = ''facebook'' then findFacebookVideos h vs
      else if pf = ''youtube'' then findYouTubeVideos h vs
      else if pf = ''instagram'' then findInstagramVideos h vs
      else if pf = ''twitter'' then findTwitterVideos h vs
      else if pf = ''twitch'' then findTwitchVideos h vs
      else Inr vs)"

section \<open>Detection orchestrator\<close>

text \<open>
  The class body of content.js declares the method \<open>removeDuplicates\<close> twice. A later
  declaration of a class member replaces an earlier one of the same name, so the method
  that \<open>findVideos\<close> calls is the one of lines 961-970, whose key is \<open>video.src\<close>; the one
  of lines 493-503, whose key is \<open>video.url || video.src\<close>, is never called. Both run the
  same filter over a \<open>Set\<close> of the keys seen so far; a key is \<open>None\<close> when the property
  is \<open>undefined\<close>, and a \<open>Set\<close> holds \<open>undefined\<close> like any other value.
\<close>

fun dedupBy :: "(candidate \<Rightarrow> 'k) \<Rightarrow> 'k list \<Rightarrow> candidate list \<Rightarrow> candidate list" where
  "dedupBy key seen [] = []"
| "dedupBy key seen (video # videos) =
     (if key video \<in> set seen then dedupBy key seen videos
      else video # dedupBy key (key video # seen) videos)"

text \<open>\<open>video.url || video.src\<close>.\<close>

definition urlOrSrc :: "candidate \<Rightarrow> string option" where
  "urlOrSrc video = (case url video of Some u \<Rightarrow> if u \<noteq> [] then Some u else src video | None \<Rightarrow> src video)"

definition removeDuplicates :: "candidate list \<Rightarrow> candidate list" where
  "removeDuplicates videos = dedupBy src [] videos"

definition removeDuplicates_shadowed :: "candidate list \<Rightarrow> candidate list" where
  "removeDuplicates_shadowed videos = dedupBy urlOrSrc [] videos"

text \<open>content.js, \<open>isValidVideo\<close> (lines 505-523), as the truth value \<open>filter\<close> reads.\<close>

definition isValidVideo :: "candidate \<Rightarrow> bool" where
  "isValidVideo video =
     (if isStreaming video = Some True then
        (case url video of Some u \<Rightarrow> u \<noteq> [] \<and> 10 < length u | None \<Rightarrow> False)
      else
        (case urlOrSrc video of
           None \<Rightarrow> False
         | Some videoUrl \<Rightarrow>
             if videoUrl = [] \<or> length videoUrl < 10 then False
             else if length videoUrl < 20 then False
             else True))"

text \<open>
  content.js, \<open>findVideos\<close> (lines 123-156). \<open>this.videos\<close> is emptied when a scan starts
  and read by nothing but the scan, so the state that outlives a scan is the set of
  observed streaming URLs alone; a scan runs to its end before the next message is
  handled. \<open>findVideosBody\<close> is the \<open>try\<close> block, \<open>findVideos\<close> the settled promise:
  \<open>Inr\<close> when it is fulfilled, \<open>Inl\<close> when it is rejected.
\<close>

definition findVideosBody :: "host \<Rightarrow> string list \<Rightarrow> exn + candidate list" where
  "findVideosBody h observed =
     (let pf = detectPlatform (location_hostname h) in
      bnd (findDirectVideoElements h [])
        (\<lambda>vs. bnd (findSourceElements h vs)
        (\<lambda>vs. bnd (findPlatformSpecificVideos h pf vs)
        (\<lambda>vs. bnd (findStreamingVideos h observed pf vs)
        (\<lambda>vs. Inr (filter isValidVideo (removeDuplicates vs)))))))"

definition findVideos :: "host \<Rightarrow> string list \<Rightarrow> exn + candidate list" where
  "findVideos h observed =
     (case findVideosBody h observed of Inl error \<Rightarrow> Inr [] | Inr videos \<Rightarrow> Inr videos)"

text \<open>
  content.js, the message listener of \<open>init\<close> (lines 16-30): the responses it hands to
  \<open>sendResponse\<close>, and its return value.
\<close>

record response =
  videos :: "candidate list"
  error :: "string option"

definition onMessage :: "host \<Rightarrow> string list \<Rightarrow> string \<Rightarrow> response list \<times> bool" where
  "onMessage h observed action =
     (if action = ''findVideos'' then
        ((case findVideos h observed of
            Inr found \<Rightarrow> [\<lparr>videos = found, error = None\<rparr>]
          | Inl e \<Rightarrow> [\<lparr>videos = [], error = Some (message e)\<rparr>]),
         True)
      else ([], False))"


section \<open>Reference predicates for the classifier\<close>

text \<open>
  The markers of the classifier stated on strings, without regular expressions: a suffix,
  \<open>segment-\<close> followed by a digit, and the list of markers that make a URL a streaming
  URL. \<open>isStreamingUrl_Str\<close> below proves that the classifier computes exactly
  \<open>streamingMarker\<close>.
\<close>

fun endsWith :: "string \<Rightarrow> string \<Rightarrow> bool" where
  "endsWith [] p = (p = [])"
| "endsWith (c # cs) p = (c # cs = p \<or> endsWith cs p)"

definition segmentHere :: "string \<Rightarrow> bool" where
  "segmentHere s =
     (startsWith s ''segment-'' \<and> (case drop 8 s of [] \<Rightarrow> False | d # ds \<Rightarrow> isDigit d))"

fun segmentMarker :: "string \<Rightarrow> bool" where
  "segmentMarker [] = False"
| "segmentMarker (c # cs) = (segmentHere (c # cs) \<or> segmentMarker cs)"

definition streamingMarker :: "string \<Rightarrow> bool" where
  "streamingMarker u =
     (includesStr u ''m3u8'' \<or> includesStr u ''mpd''
      \<or> includesStr (toLowerCase u) ''/hls/'' \<or> includesStr (toLowerCase u) ''/dash/''
      \<or> includesStr (toLowerCase u) ''/stream/'' \<or> includesStr (toLowerCase u) ''/manifest/''
      \<or> includesStr (toLowerCase u) ''playlist.m3u8'' \<or> includesStr (toLowerCase u) ''master.m3u8''
      \<or> includesStr (toLowerCase u) ''index.m3u8''
      \<or> endsWith (toLowerCase u) ''.ts'' \<or> segmentMarker (toLowerCase u))"

text \<open>The ordered table of format markers, and the format of the first marker that the
  lower-cased URL contains.\<close>

definition formatMarkers :: "(string \<times> string) list" where
  "formatMarkers =
    [(''.mp4'', ''MP4''), (''.webm'', ''WebM''), (''.ogg'', ''OGG''), (''.avi'', ''AVI''),
     (''.mov'', ''MOV''), (''.wmv'', ''WMV''), (''.flv'', ''FLV''), (''.mkv'', ''MKV''),
     (''.m3u8'', ''HLS''), (''.mpd'', ''DASH''), (''.ts'', ''TS'')]"

definition firstMarker :: "string \<Rightarrow> string option" where
  "firstMarker u = map_option snd (find (\<lambda>(m, f). includesStr (toLowerCase u) m) formatMarkers)"

section \<open>Example pages\<close>

text \<open>
  The \<open>URL\<close> constructor of the example pages. It tells the four schemes of the example
  URLs apart, ignoring the case of the scheme, and returns the protocol and the path name
  that \<open>new URL\<close> returns for them; it is not a parser for other strings. \<open>emptyPage\<close> is
  a page without media elements and scripts; the examples below add elements to it.
\<close>

definition pathOf :: "string \<Rightarrow> string" where
  "pathOf rest =
     (let path = dropWhile (\<lambda>c. c \<noteq> CHR ''/'')
                   (takeWhile (\<lambda>c. c \<noteq> CHR ''?'' \<and> c \<noteq> CHR ''#'') rest)
      in if path = [] then ''/'' else path)"

definition exampleURL :: "string \<Rightarrow> exn + url_object" where
  "exampleURL u =
     (if startsWith (toLowerCase u) ''https://'' then
        Inr \<lparr>protocol = ''https:'', pathname = pathOf (drop 8 u)\<rparr>
      else if startsWith (toLowerCase u) ''http://'' then
        Inr \<lparr>protocol = ''http:'', pathname = pathOf (drop 7 u)\<rparr>
      else if startsWith (toLowerCase u) ''blob:'' then
        Inr \<lparr>protocol = ''blob:'',
             pathname = takeWhile (\<lambda>c. c \<noteq> CHR ''?'' \<and> c \<noteq> CHR ''#'') (drop 5 u)\<rparr>
      else if startsWith (toLowerCase u) ''data:'' then
        Inr \<lparr>protocol = ''data:'',
             pathname = takeWhile (\<lambda>c. c \<noteq> CHR ''?'' \<and> c \<noteq> CHR ''#'') (drop 5 u)\<rparr>
      else Inl (TypeError ''Invalid URL''))"

definition emptyPage :: host where
  "emptyPage =
     \<lparr>location_hostname = ''example.com'', document_title = ''Example'',
      querySelectorAll = (\<lambda>selector. Inr []),
      new_URL = exampleURL,
      JSON_parse = (\<lambda>text. Inl (SyntaxError ''Unexpected token'')),
      videoTitle = (\<lambda>el source. Inr ''clip''),
      platformTitle = (\<lambda>pf. Inr (pf @ '' Video'')),
      streamingUrlTitle = (\<lambda>u pf. Inr (pf @ '' Stream''))\<rparr>"

text \<open>
  The pages of the examples: a generic page with one \<open>video\<close> element whose \<open>src\<close> is an
  MP4 file; a TikTok page with one \<open>video\<close> element whose \<open>src\<close> is a blob URL; a YouTube
  page with one script that assigns \<open>ytInitialPlayerResponse\<close>; a generic page with one
  \<open>video\<close> element that has a nested \<open>source\<close>; variants of the first page with a
  script without URLs and a nested \<open>source\<close> that is no video, with a nested video
  \<open>source\<close>, and with a script that names a manifest URL; the YouTube page with the player's
  \<open>video\<close> element, whose \<open>src\<close> is a blob URL, added; and the first page again, with a
  document query that throws for \<open>script\<close>.
\<close>

definition clipUrl :: string where
  "clipUrl = ''https://cdn.example.com/clip.mp4''"

definition clipVideo :: element where
  "clipVideo = \<lparr>el_src = clipUrl, el_textContent = [], el_querySelector_source = None,
                 el_querySelectorAll_source_src = []\<rparr>"

definition clipPage :: host where
  "clipPage = emptyPage
     \<lparr>querySelectorAll :=
        (\<lambda>selector. if selector = ''video[src]'' \<or> selector = ''video'' then Inr [clipVideo] else Inr [])\<rparr>"

definition blobUrl :: string where
  "blobUrl = ''blob:https://www.tiktok.com/0a1b2c3d-4e5f''"

definition blobVideo :: element where
  "blobVideo = \<lparr>el_src = blobUrl, el_textContent = [], el_querySelector_source = None,
                 el_querySelectorAll_source_src = []\<rparr>"

definition blobPage :: host where
  "blobPage = emptyPage
     \<lparr>location_hostname := ''www.tiktok.com'',
      querySelectorAll :=
        (\<lambda>selector. if selector = ''video[src]'' \<or> selector = ''video'' then Inr [blobVideo] else Inr [])\<rparr>"

definition hlsUrl :: string where
  "hlsUrl = ''https://example.com/hls/master.m3u8''"

definition playerScript :: string where
  "playerScript =
     ''ytInitialPlayerResponse = {'' @ [CHR 0x22] @ ''streamingData'' @ [CHR 0x22] @ '':{'' @
     [CHR 0x22] @ ''hlsManifestUrl'' @ [CHR 0x22] @ '':'' @ [CHR 0x22] @ hlsUrl @ [CHR 0x22] @ ''}}''"

definition playerScriptElement :: element where
  "playerScriptElement = \<lparr>el_src = [], el_textContent = playerScript,
     el_querySelector_source = None, el_querySelectorAll_source_src = []\<rparr>"

definition youtubePage :: host where
  "youtubePage = emptyPage
     \<lparr>location_hostname := ''www.youtube.com'', document_title := ''Clip - YouTube'',
      querySelectorAll :=
        (\<lambda>selector. if selector = ''script'' then Inr [playerScriptElement] else Inr [])\<rparr>"

definition webmSource :: source_element where
  "webmSource = \<lparr>s_src = ''https://cdn.example.com/clip.webm'', s_type = ''video/webm''\<rparr>"

definition sourceVideo :: element where
  "sourceVideo = \<lparr>el_src = [], el_textContent = [], el_querySelector_source = Some webmSource,
                   el_querySelectorAll_source_src = [webmSource]\<rparr>"

definition sourcePage :: host where
  "sourcePage = emptyPage
     \<lparr>querySelectorAll := (\<lambda>selector. if selector = ''video'' then Inr [sourceVideo] else Inr [])\<rparr>"

definition youtubeBlobUrl :: string where
  "youtubeBlobUrl = ''blob:https://www.youtube.com/7c9e6679-7425''"

definition youtubeBlobVideo :: element where
  "youtubeBlobVideo = \<lparr>el_src = youtubeBlobUrl, el_textContent = [],
     el_querySelector_source = None, el_querySelectorAll_source_src = []\<rparr>"

definition youtubePlayerPage :: host where
  "youtubePlayerPage = youtubePage
     \<lparr>querySelectorAll :=
        (\<lambda>selector. if selector = ''script'' then Inr [playerScriptElement]
                    else if selector = ''video[src]'' \<or> selector = ''video''
                            \<or> selector = ''.video-stream''
                         then Inr [youtubeBlobVideo]
                    else Inr [])\<rparr>"









definition otherManifestUrl :: string where
  "otherManifestUrl = ''https://cdn.example.com/live/index.mpd''"

definition failingPage :: host where
  "failingPage = clipPage
     \<lparr>querySelectorAll :=
        (\<lambda>selector. if selector = ''script'' then Inl (Error ''The operation failed'')
                    else querySelectorAll clipPage selector)\<rparr>"

section \<open>Candidate shapes\<close>

text \<open>
  The two shapes of candidates: the locator in \<open>src\<close> alone, or the locator in \<open>url\<close>
  alone, where a candidate that is not downloadable carries the blob message.
  \<open>appends P vs vs'\<close>: the list \<open>vs'\<close> is \<open>vs\<close> followed by candidates that satisfy \<open>P\<close>.
\<close>

definition appends :: "(candidate \<Rightarrow> bool) \<Rightarrow> candidate list \<Rightarrow> candidate list \<Rightarrow> bool" where
  "appends P vs vs' = (\<exists>ns. vs' = vs @ ns \<and> list_all P ns)"

definition srcOnly :: "candidate \<Rightarrow> bool" where
  "srcOnly c = (src c \<noteq> None \<and> url c = None \<and> format c = None \<and> downloadable c = None)"

definition urlOnly :: "candidate \<Rightarrow> bool" where
  "urlOnly c =
     (url c \<noteq> None \<and> src c = None \<and>
      (downloadable c = None \<or> downloadable c = Some False \<and> reason c = Some blobReason))"

section \<open>Deduplication\<close>

lemma dedupBy_idem: "dedupBy key seen (dedupBy key seen vs) = dedupBy key seen vs"
  by (induction vs arbitrary: seen) auto

lemma uniqueInOrder_set: "set (uniqueInOrder seen xs) = set xs - set seen"
  by (induction xs arbitrary: seen) auto

lemma uniqueInOrder_distinct: "distinct (uniqueInOrder seen xs)"
  by (induction xs arbitrary: seen) (auto simp: uniqueInOrder_set)

text \<open>The keys that survive are the distinct keys of the input, in order of first
  occurrence, and the survivor for a key is the first input candidate with that key.\<close>

lemma dedupBy_keys: "map key (dedupBy key seen vs) = uniqueInOrder seen (map key vs)"
  by (induction vs arbitrary: seen) auto

lemma dedupBy_subset: "set (dedupBy key seen vs) \<subseteq> set vs"
  by (induction vs arbitrary: seen) auto

lemma dedupBy_fresh: "v \<in> set (dedupBy key seen vs) \<Longrightarrow> key v \<notin> set seen"
  by (induction vs arbitrary: seen) (fastforce split: if_splits)+

lemma dedupBy_first:
  "v \<in> set (dedupBy key seen vs) \<Longrightarrow> find (\<lambda>w. key w = key v) vs = Some v"
proof (induction vs arbitrary: seen)
  case Nil
  then show ?case by simp
next
  case (Cons a vs)
  show ?case
  proof (cases "key a = key v")
    case True
    have "v \<notin> set (dedupBy key (key a # seen) vs)"
      using dedupBy_fresh [of v key "key a # seen" vs] True by auto
    moreover have "key v \<notin> set seen"
      using Cons.prems dedupBy_fresh by fastforce
    ultimately show ?thesis using Cons.prems True by (auto split: if_splits)
  next
    case False
    with Cons show ?thesis by (auto split: if_splits)
  qed
qed

text \<open>
  C1. After the deduplication step one candidate survives per distinct \<open>url\<close>, the first
  seen. The method the orchestrator runs keys on \<open>video.src\<close>: two streaming candidates
  with different URLs both have the key \<open>undefined\<close>, and the second is dropped. The
  shadowed declaration, keyed on \<open>video.url || video.src\<close>, keeps both.
\<close>

theorem removeDuplicates_collapses_url_only:
  "removeDuplicates
     [streamingEntry ''https://a.example.com/one.m3u8'' ''generic'' ''HLS'' ''one'',
      streamingEntry ''https://b.example.com/two.mpd'' ''generic'' ''DASH'' ''two'']
   = [streamingEntry ''https://a.example.com/one.m3u8'' ''generic'' ''HLS'' ''one'']
   \<and> removeDuplicates_shadowed
     [streamingEntry ''https://a.example.com/one.m3u8'' ''generic'' ''HLS'' ''one'',
      streamingEntry ''https://b.example.com/two.mpd'' ''generic'' ''DASH'' ''two'']
   = [streamingEntry ''https://a.example.com/one.m3u8'' ''generic'' ''HLS'' ''one'',
      streamingEntry ''https://b.example.com/two.mpd'' ''generic'' ''DASH'' ''two'']"
  by (simp add: removeDuplicates_def removeDuplicates_shadowed_def streamingEntry_def
      absent_def urlOrSrc_def)

text \<open>
  The same in a whole scan: on the YouTube page with the player's \<open>video\<close> element the
  blob candidate comes first, and the streaming candidate of the manifest URL, found by
  the script scan, is dropped as its duplicate.
\<close>

lemma scan_keeps_first_url_only_candidate:
  "findVideos youtubePlayerPage [] =
     Inr [absent\<lparr>url := Some youtubeBlobUrl, title := Some ''youtube Video'',
                 element := Some youtubeBlobVideo, vtype := Some ''youtube_blob'',
                 format := Some ''blob'', vsize := Some ''Unknown'', downloadable := Some False,
                 reason := Some blobReason, alternative := Some blobAlternative\<rparr>]"
  by code_simp

text \<open>
  C8. The deduplication step is idempotent: applied to its own output it returns that
  output unchanged.
\<close>

theorem removeDuplicates_idempotent:
  "removeDuplicates (removeDuplicates vs) = removeDuplicates vs"
  by (simp add: removeDuplicates_def dedupBy_idem)


section \<open>The URL classifier\<close>

subsection \<open>The regular expressions of \<open>isStreamingUrl\<close>\<close>

lemma startsWith_includes: "startsWith s p \<Longrightarrow> includesStr s p"
  by (cases s) (auto elim: startsWith.elims)

lemma includesStr_tail: "includesStr u (x # p) \<Longrightarrow> includesStr u p"
  by (induction u) (auto simp: startsWith_includes)

lemma matchHere_length: "matchHere ci ps s = Some (segs, r) \<Longrightarrow> length segs = length ps"
  by (induction ci ps s arbitrary: segs r rule: matchHere.induct)
     (auto simp: consumed_def prepend_def split: option.splits if_splits list.splits prod.splits)

lemma prepend_None: "(prepend c (matchHere ci (a # ps) s) = None) = (matchHere ci (a # ps) s = None)"
proof (cases "matchHere ci (a # ps) s")
  case None
  then show ?thesis by (simp add: prepend_def)
next
  case (Some x)
  obtain segs r where x: "x = (segs, r)" by (cases x)
  with Some have "length segs = length (a # ps)" using matchHere_length by blast
  then obtain g gs where "segs = g # gs" by (cases segs) auto
  with Some x show ?thesis by (simp add: prepend_def)
qed

lemma consumed_None: "(consumed seg r = None) = (r = None)"
  by (auto simp: consumed_def split: option.splits)

lemma matchLit:
  "(matchHere True (Lit p # ps) t = None)
   = (\<not> startsWith (map lowerChar t) (map lowerChar p) \<or> matchHere True ps (drop (length p) t) = None)"
proof (induction p arbitrary: t)
  case Nil
  then show ?case by (simp add: consumed_None)
next
  case (Cons l ls)
  show ?case
  proof (cases t)
    case Nil
    then show ?thesis by simp
  next
    case (Cons c cs)
    then show ?thesis using Cons.IH [of cs] by (simp add: sameChar_def prepend_None)
  qed
qed

lemma search_Cons:
  "(search ci ps (c # cs) = None) = (matchHere ci ps (c # cs) = None \<and> search ci ps cs = None)"
  by (simp split: option.splits)

lemma search_Lit:
  "(search True [Lit p] u = None) = (\<not> includesStr (map lowerChar u) (map lowerChar p))"
proof (induction u)
  case Nil
  have "(matchHere True [Lit p] [] = None) = (p \<noteq> [])" by (cases p) (simp_all add: consumed_def)
  then show ?case by simp
next
  case (Cons c cs)
  then show ?case by (simp only: search_Cons matchLit) simp
qed

lemma matchEos: "(matchHere ci [Eos] r = None) = (r \<noteq> [])"
  by (cases r) (simp_all add: consumed_None)

lemma startsWith_exact: "(startsWith s p \<and> drop (length p) s = []) = (s = p)"
  by (induction s p rule: startsWith.induct) auto

lemma search_Lit_Eos:
  "(search True [Lit p, Eos] u = None) = (\<not> endsWith (map lowerChar u) (map lowerChar p))"
proof (induction u)
  case Nil
  have "(matchHere True [Lit p, Eos] [] = None) = (p \<noteq> [])"
    by (cases p) (simp_all add: consumed_def)
  then show ?case by simp
next
  case (Cons c cs)
  have "(matchHere True [Lit p, Eos] (c # cs) = None)
        = (\<not> (startsWith (map lowerChar (c # cs)) (map lowerChar p)
              \<and> drop (length (map lowerChar p)) (map lowerChar (c # cs)) = []))"
    by (simp only: matchLit matchEos) (simp add: drop_map)
  then have "(matchHere True [Lit p, Eos] (c # cs) = None)
        = (map lowerChar (c # cs) \<noteq> map lowerChar p)"
    by (simp only: startsWith_exact)
  with Cons show ?case by (simp only: search_Cons) simp
qed

lemma matchStar_total: "matchHere ci [Star k] s \<noteq> None"
  by (cases s) (simp_all add: consumed_def split: option.splits)

lemma matchPlus: "(matchHere ci [Plus k] r = None) = (case r of [] \<Rightarrow> True | d # ds \<Rightarrow> \<not> k d)"
  using matchStar_total by (cases r) (simp_all add: prepend_None)

lemma isDigit_lowerChar: "isDigit (lowerChar d) = isDigit d"
  by (auto simp: isDigit_def lowerChar_def)

lemma lower_segment: "map lowerChar ''segment-'' = ''segment-''"
  by (simp add: lowerChar_def)

lemma matchLitPlus:
  "(matchHere True [Lit p, Plus k] t = None)
   = (\<not> (startsWith (map lowerChar t) (map lowerChar p)
          \<and> (case drop (length p) t of [] \<Rightarrow> False | d # ds \<Rightarrow> k d)))"
  by (simp only: matchLit matchPlus) (simp split: list.splits)

lemma case_map_head:
  "(case map f xs of [] \<Rightarrow> a | d # ds \<Rightarrow> g d) = (case xs of [] \<Rightarrow> a | d # ds \<Rightarrow> g (f d))"
  by (cases xs) simp_all

lemma segmentHere_lower:
  "segmentHere (map lowerChar t)
   = (startsWith (map lowerChar t) (map lowerChar ''segment-'')
      \<and> (case drop (length ''segment-'') t of [] \<Rightarrow> False | d # ds \<Rightarrow> isDigit d))"
proof -
  have len: "length ''segment-'' = 8" by simp
  show ?thesis
    by (simp only: segmentHere_def lower_segment len drop_map case_map_head isDigit_lowerChar)
qed

lemma search_segment:
  "(search True [Lit ''segment-'', Plus isDigit] u = None) = (\<not> segmentMarker (map lowerChar u))"
proof (induction u)
  case Nil
  show ?case by simp
next
  case (Cons c cs)
  have "(matchHere True [Lit ''segment-'', Plus isDigit] (c # cs) = None)
        = (\<not> segmentHere (map lowerChar (c # cs)))"
    by (simp only: matchLitPlus segmentHere_lower)
  with Cons show ?case by (simp only: search_Cons) simp
qed

lemma test_includes:
  "map lowerChar p = p \<Longrightarrow>
   test \<lparr>atoms = [Lit p], ignoreCase = True, group1 = g\<rparr> u = includesStr (toLowerCase u) p"
  using search_Lit [of p u] by (simp add: test_def toLowerCase_def)

lemma test_endsWith:
  "map lowerChar p = p \<Longrightarrow>
   test \<lparr>atoms = [Lit p, Eos], ignoreCase = True, group1 = g\<rparr> u = endsWith (toLowerCase u) p"
  using search_Lit_Eos [of p u] by (simp add: test_def toLowerCase_def)

lemma test_segment:
  "test \<lparr>atoms = [Lit ''segment-'', Plus isDigit], ignoreCase = True, group1 = g\<rparr> u
   = segmentMarker (toLowerCase u)"
  using search_segment [of u] by (simp only: test_def toLowerCase_def regex.simps) simp

lemma streamingPatterns_test:
  "list_ex (\<lambda>pattern. test pattern u) streamingPatterns
     = (includesStr (toLowerCase u) ''/hls/'' \<or> includesStr (toLowerCase u) ''/dash/''
      \<or> includesStr (toLowerCase u) ''/stream/'' \<or> includesStr (toLowerCase u) ''/manifest/''
      \<or> includesStr (toLowerCase u) ''playlist.m3u8'' \<or> includesStr (toLowerCase u) ''master.m3u8''
      \<or> includesStr (toLowerCase u) ''index.m3u8''
      \<or> endsWith (toLowerCase u) ''.ts'' \<or> segmentMarker (toLowerCase u))"
proof -
  have l: "map lowerChar ''/hls/'' = ''/hls/''" "map lowerChar ''/dash/'' = ''/dash/''"
    "map lowerChar ''/stream/'' = ''/stream/''" "map lowerChar ''/manifest/'' = ''/manifest/''"
    "map lowerChar ''playlist.m3u8'' = ''playlist.m3u8''"
    "map lowerChar ''master.m3u8'' = ''master.m3u8''"
    "map lowerChar ''index.m3u8'' = ''index.m3u8''" "map lowerChar ''.ts'' = ''.ts''"
    by (simp_all add: lowerChar_def)
  show ?thesis
    by (simp only: streamingPatterns_def list_ex_Nil_iff list_ex_Cons_iff test_includes [OF l(1)]
        test_includes [OF l(2)] test_includes [OF l(3)] test_includes [OF l(4)]
        test_includes [OF l(5)] test_includes [OF l(6)] test_includes [OF l(7)]
        test_endsWith [OF l(8)] test_segment simp_thms)
qed

lemma isStreamingUrl_Str: "isStreamingUrl (Str u) = Inr (streamingMarker u)"
proof (cases "u = []")
  case True
  then show ?thesis
    by (simp add: isStreamingUrl_def streamingMarker_def toLowerCase_def)
next
  case False
  have inc: "includesStr u ''.m3u8'' \<Longrightarrow> includesStr u ''m3u8''"
    "includesStr u ''.mpd'' \<Longrightarrow> includesStr u ''mpd''"
    using includesStr_tail by blast+
  show ?thesis
    using False inc
    by (auto simp: isStreamingUrl_def bnd_def streamingMarker_def streamingPatterns_test
        simp del: includesStr.simps)
qed

text \<open>
  C4. For every string containing \<open>.m3u8\<close> or \<open>.mpd\<close>, \<open>isStreamingUrl\<close> returns true;
  it returns false for every string with none of the markers of \<open>streamingMarker\<close>
  (\<open>m3u8\<close> or \<open>mpd\<close> with or without the dot and, ignoring case, \<open>/hls/\<close>, \<open>/dash/\<close>,
  \<open>/stream/\<close>, \<open>/manifest/\<close>, \<open>playlist.m3u8\<close>, \<open>master.m3u8\<close>, \<open>index.m3u8\<close>, a final
  \<open>.ts\<close>, \<open>segment-\<close> before a digit) and true for every string with one of them; for a
  value that is not a string, and for the empty string, it returns false; it never throws.
\<close>

theorem isStreamingUrl_classification:
  "(includesStr u ''.m3u8'' \<or> includesStr u ''.mpd'' \<longrightarrow> isStreamingUrl (Str u) = Inr True)
   \<and> (\<not> streamingMarker u \<longrightarrow> isStreamingUrl (Str u) = Inr False)
   \<and> (streamingMarker u \<longrightarrow> isStreamingUrl (Str u) = Inr True)
   \<and> ((\<forall>s. v \<noteq> Str s) \<or> v = Str [] \<longrightarrow> isStreamingUrl v = Inr False)
   \<and> (\<exists>b. isStreamingUrl v = Inr b)"
proof -
  have 1: "includesStr u ''.m3u8'' \<or> includesStr u ''.mpd'' \<longrightarrow> streamingMarker u"
    using includesStr_tail [of u "CHR ''.''" "''m3u8''"] includesStr_tail [of u "CHR ''.''" "''mpd''"]
    by (auto simp: streamingMarker_def simp del: includesStr.simps)
  have 2: "(\<forall>s. v \<noteq> Str s) \<or> v = Str [] \<longrightarrow> isStreamingUrl v = Inr False"
    by (cases v) (simp_all add: isStreamingUrl_def)
  have 3: "\<exists>b. isStreamingUrl v = Inr b"
  proof (cases v)
    case (Str s)
    then show ?thesis using isStreamingUrl_Str by blast
  qed (auto simp: isStreamingUrl_def)
  from 1 2 3 show ?thesis by (simp add: isStreamingUrl_Str)
qed

theorem isStreamingUrl_classification_witness:
  "includesStr ''https://example.com/hls/master.m3u8'' ''.m3u8''
   \<and> isStreamingUrl (Str ''https://example.com/hls/master.m3u8'') = Inr True
   \<and> \<not> streamingMarker ''https://cdn.example.com/clip.mp4''
   \<and> isStreamingUrl (Str ''https://cdn.example.com/clip.mp4'') = Inr False
   \<and> (\<forall>s. Number 5 \<noteq> Str s)
   \<and> isStreamingUrl (Number 5) = Inr False"
proof -
  have a: "includesStr ''https://example.com/hls/master.m3u8'' ''.m3u8''" by simp
  have b: "\<not> streamingMarker ''https://cdn.example.com/clip.mp4''"
    by code_simp
  have c: "\<forall>s. Number 5 \<noteq> Str s" by simp
  show ?thesis
    using a b c
      isStreamingUrl_classification [of "''https://example.com/hls/master.m3u8''" "Number 5"]
      isStreamingUrl_classification [of "''https://cdn.example.com/clip.mp4''" "Number 5"]
    by blast
qed

text \<open>
  The short list \<open>.m3u8\<close>, \<open>.mpd\<close>, \<open>/hls/\<close>, \<open>/dash/\<close>, final \<open>.ts\<close>, \<open>segment-\<close> before
  a digit does not describe the classifier: a URL with none of these and the path
  \<open>/stream/\<close>, and a URL with none of these, of \<open>/stream/\<close> and \<open>/manifest/\<close>, that contains
  the letters \<open>mpd\<close>, are both classified as streaming.
\<close>

theorem isStreamingUrl_counterexample:
  "\<not> includesStr ''https://example.com/stream/live'' ''.m3u8''
   \<and> \<not> includesStr ''https://example.com/stream/live'' ''.mpd''
   \<and> \<not> includesStr (toLowerCase ''https://example.com/stream/live'') ''/hls/''
   \<and> \<not> includesStr (toLowerCase ''https://example.com/stream/live'') ''/dash/''
   \<and> \<not> endsWith (toLowerCase ''https://example.com/stream/live'') ''.ts''
   \<and> \<not> segmentMarker (toLowerCase ''https://example.com/stream/live'')
   \<and> isStreamingUrl (Str ''https://example.com/stream/live'') = Inr True
   \<and> \<not> includesStr ''https://example.com/campdown/a.jpg'' ''.m3u8''
   \<and> \<not> includesStr ''https://example.com/campdown/a.jpg'' ''.mpd''
   \<and> \<not> includesStr (toLowerCase ''https://example.com/campdown/a.jpg'') ''/hls/''
   \<and> \<not> includesStr (toLowerCase ''https://example.com/campdown/a.jpg'') ''/dash/''
   \<and> \<not> includesStr (toLowerCase ''https://example.com/campdown/a.jpg'') ''/stream/''
   \<and> \<not> includesStr (toLowerCase ''https://example.com/campdown/a.jpg'') ''/manifest/''
   \<and> \<not> endsWith (toLowerCase ''https://example.com/campdown/a.jpg'') ''.ts''
   \<and> \<not> segmentMarker (toLowerCase ''https://example.com/campdown/a.jpg'')
   \<and> isStreamingUrl (Str ''https://example.com/campdown/a.jpg'') = Inr True"
  by (simp only: isStreamingUrl_Str) code_simp

text \<open>
  C5. \<open>isValidVideoUrl\<close> returns false for every URL that starts with \<open>blob:\<close> or
  \<open>data:\<close> and for every URL whose parsed scheme is one of the two, whatever else the URL
  contains; it returns true only for a URL that parses with the scheme http or https.
\<close>

theorem isValidVideoUrl_scheme:
  "(startsWith u ''blob:'' \<or> startsWith u ''data:'' \<longrightarrow> \<not> isValidVideoUrl h u)
   \<and> (\<forall>obj. new_URL h u = Inr obj \<and> (protocol obj = ''blob:'' \<or> protocol obj = ''data:'')
          \<longrightarrow> \<not> isValidVideoUrl h u)
   \<and> (isValidVideoUrl h u \<longrightarrow>
        (\<exists>obj. new_URL h u = Inr obj \<and> (protocol obj = ''http:'' \<or> protocol obj = ''https:'')))"
  by (auto simp: isValidVideoUrl_def split: sum.splits if_splits)

theorem isValidVideoUrl_scheme_witness:
  "startsWith ''blob:https://example.com/clip.mp4'' ''blob:''
   \<and> new_URL emptyPage ''blob:https://example.com/clip.mp4''
       = Inr \<lparr>protocol = ''blob:'', pathname = ''https://example.com/clip.mp4''\<rparr>
   \<and> \<not> isValidVideoUrl emptyPage ''blob:https://example.com/clip.mp4''
   \<and> isValidVideoUrl emptyPage ''https://cdn.example.com/clip.mp4''
   \<and> (\<exists>obj. new_URL emptyPage ''https://cdn.example.com/clip.mp4'' = Inr obj
          \<and> (protocol obj = ''http:'' \<or> protocol obj = ''https:''))"
proof -
  have v: "isValidVideoUrl emptyPage ''https://cdn.example.com/clip.mp4''"
    by code_simp
  have b: "startsWith ''blob:https://example.com/clip.mp4'' ''blob:''" by simp
  have p: "new_URL emptyPage ''blob:https://example.com/clip.mp4''
       = Inr \<lparr>protocol = ''blob:'', pathname = ''https://example.com/clip.mp4''\<rparr>"
    by code_simp
  show ?thesis
    using isValidVideoUrl_scheme [of "''blob:https://example.com/clip.mp4''" emptyPage]
      isValidVideoUrl_scheme [of "''https://cdn.example.com/clip.mp4''" emptyPage] v b p
    by blast
qed

text \<open>
  C6. \<open>getVideoFormat\<close> is a first-match-wins scan of the lower-cased URL over the ordered
  table \<open>formatMarkers\<close>. It returns \<open>Unknown\<close> for the empty URL only; for a URL that
  contains no marker it returns \<open>Blob\<close> when the URL starts with \<open>blob:\<close> and \<open>Video\<close>
  otherwise.
\<close>

theorem getVideoFormat_first_match:
  "getVideoFormat u =
     (if u = [] then ''Unknown''
      else (case firstMarker u of
              Some f \<Rightarrow> f
            | None \<Rightarrow> if startsWith (toLowerCase u) ''blob:'' then ''Blob'' else ''Video''))"
  by (simp add: getVideoFormat_def firstMarker_def formatMarkers_def Let_def)

text \<open>A URL without any marker gets the format \<open>Video\<close>, not \<open>Unknown\<close>, and a blob URL
  that contains a marker gets the format of the marker.\<close>

theorem getVideoFormat_counterexample:
  "firstMarker ''https://example.com/watch'' = None
   \<and> getVideoFormat ''https://example.com/watch'' \<noteq> ''Unknown''
   \<and> startsWith ''blob:https://example.com/clip.mp4'' ''blob:''
   \<and> getVideoFormat ''blob:https://example.com/clip.mp4'' \<noteq> ''Blob''"
  by (simp add: getVideoFormat_def firstMarker_def formatMarkers_def Let_def toLowerCase_def
      lowerChar_def)


section \<open>The detection strategies\<close>

lemma blobReason_nonempty: "blobReason \<noteq> []"
  by (simp add: blobReason_def)

subsection \<open>What each strategy appends\<close>

lemma appends_refl: "appends P vs vs"
  by (simp add: appends_def)

lemma appends_trans: "appends P a b \<Longrightarrow> appends P b c \<Longrightarrow> appends P a c"
  by (auto simp: appends_def)

lemma appends_snoc: "P c \<Longrightarrow> appends P vs (vs @ [c])"
  by (simp add: appends_def)

lemma bnd_Inr: "(bnd m f = Inr y) = (\<exists>x. m = Inr x \<and> f x = Inr y)"
  by (cases m) (simp_all add: bnd_def)

lemma forEach_appends:
  assumes "forEach f xs s = Inr s'"
    and "\<And>x s s'. f x s = Inr s' \<Longrightarrow> appends P s s'"
  shows "appends P s s'"
  using assms(1)
proof (induction xs arbitrary: s)
  case Nil
  then show ?case by (simp add: appends_refl)
next
  case (Cons x xs)
  from Cons.prems obtain s1 where s1: "f x s = Inr s1" "forEach f xs s1 = Inr s'"
    by (auto split: sum.splits)
  have "appends P s s1" using assms(2) s1 by blast
  moreover have "appends P s1 s'" using Cons.IH s1 by blast
  ultimately show ?case using appends_trans by blast
qed

lemma urlOnly_streamingEntry: "urlOnly (streamingEntry u p f t)"
  by (simp add: urlOnly_def streamingEntry_def absent_def)

lemma pushStreaming_appends:
  "pushStreaming h pf u vs = Inr vs' \<Longrightarrow> appends urlOnly vs vs'"
  by (auto simp: pushStreaming_def Let_def bnd_Inr appends_snoc urlOnly_streamingEntry)

lemma extractYouTubeStreamingData_appends:
  "appends urlOnly vs (extractYouTubeStreamingData h sd vs)"
  by (auto simp: extractYouTubeStreamingData_def Let_def appends_def urlOnly_streamingEntry
      split: option.splits)

lemma findYouTubeStreamingUrls_appends:
  assumes "findYouTubeStreamingUrls h vs = Inr vs'"
  shows "appends urlOnly vs vs'"
  using assms
  unfolding findYouTubeStreamingUrls_def bnd_Inr
  apply (elim exE conjE)
  apply (erule forEach_appends)
  apply (auto simp: bnd_Inr appends_refl extractYouTubeStreamingData_appends
      split: if_splits sum.splits option.splits)
  done

lemma findFacebookStreamingUrls_appends:
  assumes "findFacebookStreamingUrls h vs = Inr vs'"
  shows "appends urlOnly vs vs'"
  using assms
  unfolding findFacebookStreamingUrls_def bnd_Inr
  apply (elim exE conjE)
  apply (erule forEach_appends)
  apply (auto simp: bnd_Inr appends_refl split: if_splits)
   apply (erule forEach_appends)
   apply (auto simp: bnd_Inr appends_snoc urlOnly_streamingEntry)[1]
  apply (erule forEach_appends)
  apply (auto simp: bnd_Inr appends_snoc urlOnly_streamingEntry)[1]
  done

lemma findTikTokStreamingUrls_appends:
  assumes "findTikTokStreamingUrls h vs = Inr vs'"
  shows "appends urlOnly vs vs'"
  using assms
  unfolding findTikTokStreamingUrls_def bnd_Inr
  apply (elim exE conjE)
  apply (erule forEach_appends)
  apply (auto simp: bnd_Inr appends_refl split: if_splits)
  apply (erule forEach_appends)
  apply (auto simp: bnd_Inr appends_snoc urlOnly_streamingEntry)[1]
  done

lemma scanPageForStreamingUrls_appends:
  assumes "scanPageForStreamingUrls h pf vs = Inr vs'"
  shows "appends urlOnly vs vs'"
proof -
  from assms obtain scripts vs1 where
    1: "forEach
                 (\<lambda>script vs.
                    if el_textContent script \<noteq> [] then
                      bnd (extractStreamingUrlsFromText (el_textContent script))
                        (\<lambda>streamingUrls. forEach (pushStreaming h pf) streamingUrls vs)
                    else Inr vs)
                 (scripts :: element list) vs = Inr vs1"
    and 2: "(if pf = ''youtube'' then findYouTubeStreamingUrls h vs1
               else if pf = ''facebook'' then findFacebookStreamingUrls h vs1
               else if pf = ''tiktok'' then findTikTokStreamingUrls h vs1
               else Inr vs1) = Inr vs'"
    unfolding scanPageForStreamingUrls_def bnd_Inr by blast
  have "appends urlOnly vs vs1"
    apply (rule forEach_appends [OF 1])
    apply (auto simp: bnd_Inr appends_refl split: if_splits)
    apply (erule forEach_appends)
    apply (erule pushStreaming_appends)
    done
  moreover have "appends urlOnly vs1 vs'"
    using 2 findYouTubeStreamingUrls_appends findFacebookStreamingUrls_appends
      findTikTokStreamingUrls_appends appends_refl
    by (auto split: if_splits)
  ultimately show ?thesis using appends_trans by blast
qed

lemma findStreamingVideos_appends:
  assumes "findStreamingVideos h observed pf vs = Inr vs'"
  shows "appends urlOnly vs vs'"
proof -
  from assms obtain vs1 where 1: "forEach (pushStreaming h pf) observed vs = Inr vs1"
    and 2: "scanPageForStreamingUrls h pf vs1 = Inr vs'"
    unfolding findStreamingVideos_def bnd_Inr by blast
  have "appends urlOnly vs vs1"
    by (rule forEach_appends [OF 1]) (erule pushStreaming_appends)
  with 2 scanPageForStreamingUrls_appends show ?thesis using appends_trans by blast
qed


lemma findDirectVideoElements_appends:
  assumes "findDirectVideoElements h vs = Inr vs'"
  shows "appends srcOnly vs vs'"
  using assms
  unfolding findDirectVideoElements_def bnd_Inr
  apply (elim exE conjE)
  apply (erule forEach_appends)
  apply (auto simp: bnd_Inr appends_refl appends_snoc srcOnly_def absent_def split: if_splits)
  done

lemma findSourceElements_appends:
  assumes "findSourceElements h vs = Inr vs'"
  shows "appends srcOnly vs vs'"
  using assms
  unfolding findSourceElements_def bnd_Inr
  apply (elim exE conjE)
  apply (erule forEach_appends)
  apply (erule forEach_appends)
  apply (auto simp: bnd_Inr appends_refl appends_snoc srcOnly_def absent_def split: if_splits)
  done

lemma findBlobVideos_appends:
  assumes "findBlobVideos h pf vs = Inr vs'"
  shows "appends urlOnly vs vs'"
  using assms
  unfolding findBlobVideos_def bnd_Inr
  apply (elim exE conjE)
  apply (erule forEach_appends)
  apply (auto simp: bnd_Inr appends_refl appends_snoc urlOnly_def absent_def split: if_splits)
  done

lemma harvestSelectors_appends:
  assumes "harvestSelectors h selectors resolveTitle tag vs = Inr vs'"
  shows "appends urlOnly vs vs'"
  using assms
  unfolding harvestSelectors_def
  apply -
  apply (erule forEach_appends)
  apply (auto simp: bnd_Inr)
  apply (erule forEach_appends)
  apply (auto simp: bnd_Inr appends_refl appends_snoc urlOnly_def absent_def
      split: if_splits option.splits)
  done

lemma harvest_then_blob:
  assumes "bnd (harvestSelectors h selectors resolveTitle tag vs) (findBlobVideos h pf) = Inr vs'"
  shows "appends urlOnly vs vs'"
  using assms harvestSelectors_appends findBlobVideos_appends appends_trans
  unfolding bnd_Inr by blast



lemma findPlatformSpecificVideos_appends:
  assumes "findPlatformSpecificVideos h pf vs = Inr vs'"
  shows "appends urlOnly vs vs'"
proof -
  have "appends urlOnly vs vs' \<or> Inr vs = (Inr vs' :: exn + candidate list)"
    using assms harvest_then_blob [of h _ _ _ vs _ vs']
    unfolding findPlatformSpecificVideos_def findTikTokVideos_def findFacebookVideos_def
      findYouTubeVideos_def findInstagramVideos_def findTwitterVideos_def findTwitchVideos_def
    by (simp split: if_splits)
  then show ?thesis using appends_refl by auto
qed




lemma appends_Nil: "appends P [] vs = list_all P vs"
  by (simp add: appends_def)

lemma appends_weaken: "appends P a b \<Longrightarrow> (\<And>c. P c \<Longrightarrow> Q c) \<Longrightarrow> appends Q a b"
  by (auto simp: appends_def list_all_iff)

lemma findVideosBody_shapes:
  assumes "findVideosBody h observed = Inr vs"
  shows "list_all (\<lambda>c. srcOnly c \<or> urlOnly c) vs"
proof -
  from assms obtain v1 v2 v3 v4 where
    1: "findDirectVideoElements h [] = Inr v1" and
    2: "findSourceElements h v1 = Inr v2" and
    3: "findPlatformSpecificVideos h (detectPlatform (location_hostname h)) v2 = Inr v3" and
    4: "findStreamingVideos h observed (detectPlatform (location_hostname h)) v3 = Inr v4" and
    5: "vs = filter isValidVideo (removeDuplicates v4)"
    unfolding findVideosBody_def Let_def bnd_Inr by blast
  let ?Q = "\<lambda>c. srcOnly c \<or> urlOnly c"
  have "appends ?Q [] v1"
    by (rule appends_weaken [OF findDirectVideoElements_appends [OF 1]]) simp
  moreover have "appends ?Q v1 v2"
    by (rule appends_weaken [OF findSourceElements_appends [OF 2]]) simp
  moreover have "appends ?Q v2 v3"
    by (rule appends_weaken [OF findPlatformSpecificVideos_appends [OF 3]]) simp
  moreover have "appends ?Q v3 v4"
    by (rule appends_weaken [OF findStreamingVideos_appends [OF 4]]) simp
  ultimately have "appends ?Q [] v4"
    using appends_trans [of ?Q "[]" v1 v2] appends_trans [of ?Q "[]" v2 v3]
      appends_trans [of ?Q "[]" v3 v4] by simp
  then have "list_all ?Q v4" by (simp add: appends_Nil)
  moreover have "set vs \<subseteq> set v4"
    using 5 dedupBy_subset [of src "[]" v4] by (auto simp: removeDuplicates_def)
  ultimately show ?thesis by (auto simp: list_all_iff)
qed

text \<open>
  C10. Every candidate of the generic harvest (\<open>findDirectVideoElements\<close>,
  \<open>findSourceElements\<close>) has its locator in \<open>src\<close> and has neither \<open>url\<close> nor \<open>format\<close>;
  every candidate of the platform-specific, blob and streaming strategies has its locator
  in \<open>url\<close> and has no \<open>src\<close>. Each strategy only appends to the list it is given.
\<close>

theorem locator_field_by_strategy:
  "(findDirectVideoElements h vs = Inr vs' \<longrightarrow>
      (\<exists>ns. vs' = vs @ ns \<and> (\<forall>c \<in> set ns. src c \<noteq> None \<and> url c = None \<and> format c = None)))
   \<and> (findSourceElements h vs = Inr vs' \<longrightarrow>
      (\<exists>ns. vs' = vs @ ns \<and> (\<forall>c \<in> set ns. src c \<noteq> None \<and> url c = None \<and> format c = None)))
   \<and> (findPlatformSpecificVideos h pf vs = Inr vs' \<longrightarrow>
      (\<exists>ns. vs' = vs @ ns \<and> (\<forall>c \<in> set ns. url c \<noteq> None \<and> src c = None)))
   \<and> (findStreamingVideos h observed pf vs = Inr vs' \<longrightarrow>
      (\<exists>ns. vs' = vs @ ns \<and> (\<forall>c \<in> set ns. url c \<noteq> None \<and> src c = None)))"
  using findDirectVideoElements_appends [of h vs vs'] findSourceElements_appends [of h vs vs']
    findPlatformSpecificVideos_appends [of h pf vs vs']
    findStreamingVideos_appends [of h observed pf vs vs']
  by (simp add: appends_def list_all_iff srcOnly_def urlOnly_def) blast

theorem locator_field_by_strategy_witness:
  "(\<exists>ns. ns \<noteq> [] \<and> findDirectVideoElements clipPage [] = Inr ([] @ ns)
          \<and> (\<forall>c \<in> set ns. src c \<noteq> None \<and> url c = None \<and> format c = None))
   \<and> (\<exists>ns. ns \<noteq> [] \<and> findSourceElements sourcePage [] = Inr ([] @ ns)
          \<and> (\<forall>c \<in> set ns. src c \<noteq> None \<and> url c = None \<and> format c = None))
   \<and> (\<exists>ns. ns \<noteq> [] \<and> findPlatformSpecificVideos blobPage ''tiktok'' [] = Inr ([] @ ns)
          \<and> (\<forall>c \<in> set ns. url c \<noteq> None \<and> src c = None))
   \<and> (\<exists>ns. ns \<noteq> [] \<and> findStreamingVideos youtubePage [] ''youtube'' [] = Inr ([] @ ns)
          \<and> (\<forall>c \<in> set ns. url c \<noteq> None \<and> src c = None))"
proof -
  let ?c1 = "absent\<lparr>src := Some clipUrl, vtype := Some ''direct'', element := Some clipVideo,
                 title := Some ''clip''\<rparr>"
  let ?c2 = "absent\<lparr>src := Some (s_src webmSource), vtype := Some ''source'',
                 element := Some sourceVideo, sourceElement := Some webmSource,
                 title := Some ''clip'', mimeType := Some ''video/webm''\<rparr>"
  let ?c3 = "absent\<lparr>url := Some blobUrl, title := Some ''tiktok Video'', element := Some blobVideo,
                 vtype := Some ''tiktok_blob'', format := Some ''blob'', vsize := Some ''Unknown'',
                 downloadable := Some False, reason := Some blobReason,
                 alternative := Some blobAlternative\<rparr>"
  let ?c4 = "streamingEntry hlsUrl ''youtube'' ''HLS'' ''youtube Stream''"
  have 1: "findDirectVideoElements clipPage [] = Inr [?c1]"
    by code_simp
  have 2: "findSourceElements sourcePage [] = Inr [?c2]"
    by code_simp
  have 3: "findPlatformSpecificVideos blobPage ''tiktok'' [] = Inr [?c3]"
    by code_simp
  have 4: "findStreamingVideos youtubePage [] ''youtube'' [] = Inr [?c4]"
    by code_simp
  from 1 locator_field_by_strategy [of clipPage "[]" "[?c1]"]
  obtain n1 where n1: "[?c1] = [] @ n1" "\<forall>c \<in> set n1. src c \<noteq> None \<and> url c = None \<and> format c = None"
    by blast
  from 2 locator_field_by_strategy [of sourcePage "[]" "[?c2]"]
  obtain n2 where n2: "[?c2] = [] @ n2" "\<forall>c \<in> set n2. src c \<noteq> None \<and> url c = None \<and> format c = None"
    by blast
  from 3 locator_field_by_strategy [of blobPage "[]" "[?c3]" "''tiktok''"]
  obtain n3 where n3: "[?c3] = [] @ n3" "\<forall>c \<in> set n3. url c \<noteq> None \<and> src c = None"
    by blast
  from 4 locator_field_by_strategy [of youtubePage "[]" "[?c4]" "''youtube''" "[]"]
  obtain n4 where n4: "[?c4] = [] @ n4" "\<forall>c \<in> set n4. url c \<noteq> None \<and> src c = None"
    by blast
  from n1 1 have a: "n1 \<noteq> [] \<and> findDirectVideoElements clipPage [] = Inr ([] @ n1)" by auto
  from n2 2 have b: "n2 \<noteq> [] \<and> findSourceElements sourcePage [] = Inr ([] @ n2)" by auto
  from n3 3 have c: "n3 \<noteq> [] \<and> findPlatformSpecificVideos blobPage ''tiktok'' [] = Inr ([] @ n3)"
    by auto
  from n4 4 have d: "n4 \<noteq> [] \<and> findStreamingVideos youtubePage [] ''youtube'' [] = Inr ([] @ n4)"
    by auto
  from a b c d n1(2) n2(2) n3(2) n4(2) show ?thesis by blast
qed

text \<open>
  C7. In the result of every scan, a candidate with \<open>downloadable = false\<close> has a
  non-empty \<open>reason\<close>.
\<close>

theorem downloadable_false_has_reason:
  "findVideos h observed = Inr vs \<Longrightarrow>
   \<forall>c \<in> set vs. downloadable c = Some False \<longrightarrow> (\<exists>r. reason c = Some r \<and> r \<noteq> [])"
proof (cases "findVideosBody h observed")
  case (Inl e)
  assume "findVideos h observed = Inr vs"
  with Inl have "vs = []" by (simp add: findVideos_def)
  then show ?thesis by simp
next
  case (Inr found)
  assume "findVideos h observed = Inr vs"
  with Inr have "findVideosBody h observed = Inr vs" by (simp add: findVideos_def)
  then have "list_all (\<lambda>c. srcOnly c \<or> urlOnly c) vs" by (rule findVideosBody_shapes)
  then show ?thesis
    using blobReason_nonempty by (auto simp: list_all_iff srcOnly_def urlOnly_def)
qed

theorem downloadable_false_has_reason_witness:
  "findVideos blobPage [] =
     Inr [absent\<lparr>url := Some blobUrl, title := Some ''tiktok Video'', element := Some blobVideo,
                 vtype := Some ''tiktok_blob'', format := Some ''blob'', vsize := Some ''Unknown'',
                 downloadable := Some False, reason := Some blobReason,
                 alternative := Some blobAlternative\<rparr>]
   \<and> downloadable (absent\<lparr>url := Some blobUrl, title := Some ''tiktok Video'',
                 element := Some blobVideo,
                 vtype := Some ''tiktok_blob'', format := Some ''blob'', vsize := Some ''Unknown'',
                 downloadable := Some False, reason := Some blobReason,
                 alternative := Some blobAlternative\<rparr>) = Some False
   \<and> (\<exists>r. reason (absent\<lparr>url := Some blobUrl, title := Some ''tiktok Video'',
                 element := Some blobVideo,
                 vtype := Some ''tiktok_blob'', format := Some ''blob'', vsize := Some ''Unknown'',
                 downloadable := Some False, reason := Some blobReason,
                 alternative := Some blobAlternative\<rparr>) = Some r \<and> r \<noteq> [])"
proof -
  let ?c = "absent\<lparr>url := Some blobUrl, title := Some ''tiktok Video'', element := Some blobVideo,
                 vtype := Some ''tiktok_blob'', format := Some ''blob'', vsize := Some ''Unknown'',
                 downloadable := Some False, reason := Some blobReason,
                 alternative := Some blobAlternative\<rparr>"
  have e: "findVideos blobPage [] = Inr [?c]"
    by code_simp
  have d: "downloadable ?c = Some False" by simp
  from downloadable_false_has_reason [OF e] d
  have "\<exists>r. reason ?c = Some r \<and> r \<noteq> []" by simp
  with e d show ?thesis by blast
qed

section \<open>The orchestrator\<close>

text \<open>
  C9. The promise of \<open>findVideos\<close> is always fulfilled; when anything in the pipeline
  throws, it is fulfilled with the empty list, whatever the strategies had collected before;
  and the listener answers a \<open>findVideos\<close> request with exactly one response.
\<close>

theorem findVideos_always_answers:
  "(\<exists>found. findVideos h observed = Inr found)
   \<and> (\<forall>e. findVideosBody h observed = Inl e \<longrightarrow> findVideos h observed = Inr [])
   \<and> (\<forall>e. findVideosBody h observed = Inl e \<longrightarrow>
         fst (onMessage h observed ''findVideos'') = [\<lparr>videos = [], error = None\<rparr>])
   \<and> length (fst (onMessage h observed ''findVideos'')) = 1"
  by (cases "findVideosBody h observed") (simp_all add: findVideos_def onMessage_def)

theorem findVideos_always_answers_witness:
  "findDirectVideoElements failingPage [] \<noteq> Inr []
   \<and> findVideosBody failingPage [] = Inl (Error ''The operation failed'')
   \<and> findVideos failingPage [] = Inr []
   \<and> fst (onMessage failingPage [] ''findVideos'') = [\<lparr>videos = [], error = None\<rparr>]"
proof -
  have a: "findDirectVideoElements failingPage [] \<noteq> Inr []" by code_simp
  have b: "findVideosBody failingPage [] = Inl (Error ''The operation failed'')" by code_simp
  show ?thesis using a b findVideos_always_answers [of failingPage "[]"] by simp
qed

subsection \<open>Facts about the texts of the example pages\<close>


lemma playerScript_facts:
  "playerScript \<noteq> []"
  "includesStr playerScript ''ytInitialPlayerResponse''"
  "search (ignoreCase playerResponsePattern) (atoms playerResponsePattern) playerScript = None"
  "extractStreamingUrlsFromText playerScript = Inr [hlsUrl]"
  "getStreamingFormat hlsUrl = ''HLS''"
  "detectPlatform ''www.youtube.com'' = ''youtube''"
  "isValidVideo (streamingEntry hlsUrl ''youtube'' ''HLS'' t)"
  by code_simp+

lemma harvestSelectors_empty:
  assumes "\<And>sel. sel \<in> set selectors \<Longrightarrow> querySelectorAll h sel = Inr []"
  shows "harvestSelectors h selectors resolveTitle tag vs = Inr vs"
proof -
  have "forEach
       (\<lambda>selector vs.
          bnd (querySelectorAll h selector)
            (\<lambda>elements. forEach f elements vs))
       selectors vs = Inr vs" for f :: "element \<Rightarrow> candidate list \<Rightarrow> exn + candidate list"
    using assms by (induction selectors arbitrary: vs) (simp_all add: bnd_def)
  then show ?thesis unfolding harvestSelectors_def by blast
qed

subsection \<open>Loops that push nothing\<close>


subsection \<open>Scans of the example pages\<close>




text \<open>
  On a YouTube page whose only script is the player script, without media elements and
  observed URLs, the script scan finds the manifest URL and the scan returns its candidate,
  with the platform \<open>youtube\<close> and the format \<open>HLS\<close>. The pattern of
  \<open>findYouTubeStreamingUrls\<close> does not match the script, which has no \<open>;\<close> after the
  object.
\<close>

lemma youtube_hls_scan:
  assumes "location_hostname h = ''www.youtube.com''"
    and "querySelectorAll h ''script'' = Inr [s]"
    and "el_textContent s = playerScript"
    and "\<forall>sel. sel \<noteq> ''script'' \<longrightarrow> querySelectorAll h sel = Inr []"
    and "streamingUrlTitle h hlsUrl ''youtube'' = Inr t"
  shows "findVideos h [] = Inr [streamingEntry hlsUrl ''youtube'' ''HLS'' (orString t ''youtube HLS Stream'')]
     \<and> (\<exists>c \<in> set (case findVideos h [] of Inl e \<Rightarrow> [] | Inr found \<Rightarrow> found).
           platform c = Some ''youtube'' \<and> format c = Some ''HLS'' \<and> url c = Some hlsUrl)"
proof -
  let ?c = "streamingEntry hlsUrl ''youtube'' ''HLS'' (orString t ''youtube HLS Stream'')"
  have q: "querySelectorAll h ''video[src]'' = Inr []" "querySelectorAll h ''video'' = Inr []"
    using assms(4) by simp_all
  have 1: "findDirectVideoElements h [] = Inr []"
    using q by (simp add: findDirectVideoElements_def bnd_def)
  have 2: "findSourceElements h [] = Inr []"
    using q by (simp add: findSourceElements_def bnd_def)
  have "harvestSelectors h youtubeSelectors (extractYouTubeTitle h) ''youtube'' [] = Inr []"
    by (rule harvestSelectors_empty) (use assms(4) in \<open>auto simp: youtubeSelectors_def\<close>)
  then have 3: "findPlatformSpecificVideos h ''youtube'' [] = Inr []"
    using q by (simp add: findPlatformSpecificVideos_def findYouTubeVideos_def findBlobVideos_def bnd_def)
  have push: "pushStreaming h ''youtube'' hlsUrl [] = Inr [?c]"
    using assms(5) playerScript_facts(5) by (simp add: pushStreaming_def bnd_def)
  have yt: "findYouTubeStreamingUrls h [?c] = Inr [?c]"
    using assms(2,3) playerScript_facts(1,2,3) by (simp add: findYouTubeStreamingUrls_def bnd_def)
  have 4: "findStreamingVideos h [] ''youtube'' [] = Inr [?c]"
    using assms(2,3) playerScript_facts(1,4) push yt
    by (simp add: findStreamingVideos_def scanPageForStreamingUrls_def bnd_def)
  have 5: "removeDuplicates [?c] = [?c]" by (simp add: removeDuplicates_def)
  have "findVideosBody h [] = Inr [?c]"
    using assms(1) 1 2 3 4 5 playerScript_facts(6,7)
    by (simp add: findVideosBody_def bnd_def)
  then have r: "findVideos h [] = Inr [?c]" by (simp add: findVideos_def)
  then show ?thesis by (simp add: streamingEntry_def absent_def)
qed

lemma youtube_hls_scan_example:
  "location_hostname youtubePage = ''www.youtube.com''
   \<and> querySelectorAll youtubePage ''script'' = Inr [playerScriptElement]
   \<and> findVideos youtubePage [] = Inr [streamingEntry hlsUrl ''youtube'' ''HLS'' ''youtube Stream'']"
proof -
  have a: "location_hostname youtubePage = ''www.youtube.com''"
    by (simp add: youtubePage_def emptyPage_def)
  have b: "querySelectorAll youtubePage ''script'' = Inr [playerScriptElement]"
    by (simp add: youtubePage_def emptyPage_def)
  have c: "el_textContent playerScriptElement = playerScript"
    by (simp add: playerScriptElement_def)
  have d: "\<forall>sel. sel \<noteq> ''script'' \<longrightarrow> querySelectorAll youtubePage sel = Inr []"
    by (simp add: youtubePage_def emptyPage_def)
  have e: "streamingUrlTitle youtubePage hlsUrl ''youtube'' = Inr ''youtube Stream''"
    by (simp add: youtubePage_def emptyPage_def)
  show ?thesis
    using a b youtube_hls_scan [OF a b c d e] by (simp add: orString_def)
qed

text \<open>
  C2. On a page of \<open>www.youtube.com\<close> with a script whose text is
  \<open>ytInitialPlayerResponse = {"streamingData":{"hlsManifestUrl":"https://example.com/hls/master.m3u8"}}\<close>
  the result of the scan has a candidate with the platform \<open>youtube\<close>, the format \<open>HLS\<close>
  and that URL. The code loses it on the page that also has the player's \<open>video\<close>
  element, whose \<open>src\<close> is a blob URL: the strategies collect the blob candidate and then
  the manifest candidate, both pass the final filter, the method \<open>removeDuplicates\<close> that
  runs drops the second because neither has a \<open>src\<close>, and the shadowed one keeps both.
  An observed streaming URL in front has the same effect on the page without the element.
\<close>

theorem youtube_manifest_candidate_dropped:
  "location_hostname youtubePlayerPage = ''www.youtube.com''
   \<and> querySelectorAll youtubePlayerPage ''script'' = Inr [playerScriptElement]
   \<and> el_textContent playerScriptElement = playerScript
   \<and> findDirectVideoElements youtubePlayerPage [] = Inr []
   \<and> findSourceElements youtubePlayerPage [] = Inr []
   \<and> bnd (findPlatformSpecificVideos youtubePlayerPage ''youtube'' [])
         (findStreamingVideos youtubePlayerPage [] ''youtube'') =
       Inr [absent\<lparr>url := Some youtubeBlobUrl, title := Some ''youtube Video'',
                   element := Some youtubeBlobVideo, vtype := Some ''youtube_blob'',
                   format := Some ''blob'', vsize := Some ''Unknown'', downloadable := Some False,
                   reason := Some blobReason, alternative := Some blobAlternative\<rparr>,
            streamingEntry hlsUrl ''youtube'' ''HLS'' ''youtube Stream'']
   \<and> isValidVideo (streamingEntry hlsUrl ''youtube'' ''HLS'' ''youtube Stream'')
   \<and> removeDuplicates_shadowed
        [absent\<lparr>url := Some youtubeBlobUrl, title := Some ''youtube Video'',
                   element := Some youtubeBlobVideo, vtype := Some ''youtube_blob'',
                   format := Some ''blob'', vsize := Some ''Unknown'', downloadable := Some False,
                   reason := Some blobReason, alternative := Some blobAlternative\<rparr>,
         streamingEntry hlsUrl ''youtube'' ''HLS'' ''youtube Stream''] =
        [absent\<lparr>url := Some youtubeBlobUrl, title := Some ''youtube Video'',
                   element := Some youtubeBlobVideo, vtype := Some ''youtube_blob'',
                   format := Some ''blob'', vsize := Some ''Unknown'', downloadable := Some False,
                   reason := Some blobReason, alternative := Some blobAlternative\<rparr>,
         streamingEntry hlsUrl ''youtube'' ''HLS'' ''youtube Stream'']
   \<and> findVideos youtubePlayerPage [] =
       Inr [absent\<lparr>url := Some youtubeBlobUrl, title := Some ''youtube Video'',
                   element := Some youtubeBlobVideo, vtype := Some ''youtube_blob'',
                   format := Some ''blob'', vsize := Some ''Unknown'', downloadable := Some False,
                   reason := Some blobReason, alternative := Some blobAlternative\<rparr>]
   \<and> list_ex (\<lambda>c. platform c = Some ''youtube'' \<and> format c = Some ''HLS'' \<and> url c = Some hlsUrl)
        [absent\<lparr>url := Some youtubeBlobUrl, title := Some ''youtube Video'',
                   element := Some youtubeBlobVideo, vtype := Some ''youtube_blob'',
                   format := Some ''blob'', vsize := Some ''Unknown'', downloadable := Some False,
                   reason := Some blobReason, alternative := Some blobAlternative\<rparr>] = False
   \<and> findVideos youtubePage [otherManifestUrl] =
       Inr [streamingEntry otherManifestUrl ''youtube'' ''DASH'' ''youtube Stream'']"
  by code_simp

end
